theory Spec2Isabelle
  imports Main "HOL-Library.AList" "HOL-Library.Sublist"
begin

section \<open>LinuxStatsToMQTT: a shallow embedding of \<^verbatim>\<open>LinuxStatsToMQTT.py\<close>\<close>

text \<open>
  The script keeps its data in module-level dictionaries that were read from JSON, calls
  the MQTT client library, the clock, the CPU sensor and the operating system, and prints.
  The embedding makes all of this explicit:
  \<^item> a Python value that came out of \<^verbatim>\<open>json.loads\<close> is a \<open>json\<close>; numbers with a
    fraction or an exponent (Python floats) are not represented, and the reading of the
    sensor, which the script only stores and publishes, is carried as a \<open>json\<close> too;
  \<^item> a raised exception is the \<open>Inl\<close> of a result, together with the state reached so far,
    since the globals keep what was assigned before the raise;
  \<^item> every call into the client library is appended to \<open>calls\<close> when it is made,
    whether it then returns or raises, every \<^verbatim>\<open>print\<close> to \<open>stdout\<close>;
  \<^item> what the outside world answers (the decoded payload, the clock, the sensor, and for
    every call on the client the exception the call raises, if any: the library refusing
    its arguments, the network failing, an interrupt arriving) is an argument of the
    function that asks for it.
\<close>

subsection \<open>Values and exceptions\<close>

datatype json =
    JNull
  | JBool bool
  | JInt int
  | JStr string
  | JArr "json list"
  | JObj "(string \<times> json) list"

text \<open>
  The exceptions the script can meet. \<open>OSError\<close> stands for an \<^verbatim>\<open>OSError\<close> that is none
  of its three subclasses listed before it; \<open>JSONDecodeError\<close> and \<open>UnicodeDecodeError\<close>
  are the two ways \<^verbatim>\<open>json.loads(str(msg.payload.decode('utf-8')))\<close> fails.
\<close>

datatype exc =
    KeyboardInterrupt
  | KeyError string
  | TypeError
  | ValueError
  | JSONDecodeError
  | UnicodeDecodeError
  | ConnectionRefusedError
  | TimeoutError
  | InterruptedError
  | OSError

fun is_OSError :: "exc \<Rightarrow> bool" where
  "is_OSError ConnectionRefusedError = True"
| "is_OSError TimeoutError = True"
| "is_OSError InterruptedError = True"
| "is_OSError OSError = True"
| "is_OSError _ = False"

fun is_KeyError :: "exc \<Rightarrow> bool" where
  "is_KeyError (KeyError _) = True"
| "is_KeyError _ = False"

definition dq :: string where
  "dq = [CHR 0x22]"

definition sq :: string where
  "sq = [CHR 0x27]"

definition nl :: string where
  "nl = [CHR 0x0A]"

definition tab :: string where
  "tab = [CHR 0x09]"

subsection \<open>Python's operators on JSON values\<close>

text \<open>\<^verbatim>\<open>a == b\<close>: \<^verbatim>\<open>True\<close> and \<^verbatim>\<open>False\<close> are the integers 1 and 0, a dictionary equals
  another with the same keys and equal values, whatever the order.\<close>

fun py_eq :: "json \<Rightarrow> json \<Rightarrow> bool"
  and py_eq_list :: "json list \<Rightarrow> json list \<Rightarrow> bool"
  and py_dict_le :: "(string \<times> json) list \<Rightarrow> (string \<times> json) list \<Rightarrow> bool"
where
  "py_eq JNull b = (case b of JNull \<Rightarrow> True | _ \<Rightarrow> False)"
| "py_eq (JBool x) b =
     (case b of JBool y \<Rightarrow> x = y | JInt n \<Rightarrow> (of_bool x :: int) = n | _ \<Rightarrow> False)"
| "py_eq (JInt m) b =
     (case b of JBool y \<Rightarrow> m = of_bool y | JInt n \<Rightarrow> m = n | _ \<Rightarrow> False)"
| "py_eq (JStr s) b = (case b of JStr t \<Rightarrow> s = t | _ \<Rightarrow> False)"
| "py_eq (JArr xs) b = (case b of JArr ys \<Rightarrow> py_eq_list xs ys | _ \<Rightarrow> False)"
| "py_eq (JObj d) b =
     (case b of JObj e \<Rightarrow> length d = length e \<and> py_dict_le d e | _ \<Rightarrow> False)"
| "py_eq_list [] ys = (ys = [])"
| "py_eq_list (x # xs) ys =
     (case ys of [] \<Rightarrow> False | y # ys' \<Rightarrow> py_eq x y \<and> py_eq_list xs ys')"
| "py_dict_le [] e = True"
| "py_dict_le (kv # d) e =
     ((case map_of e (fst kv) of None \<Rightarrow> False | Some w \<Rightarrow> py_eq (snd kv) w)
      \<and> py_dict_le d e)"

text \<open>\<^verbatim>\<open>a != b\<close>\<close>

definition py_ne :: "json \<Rightarrow> json \<Rightarrow> bool" where
  "py_ne a b = (\<not> py_eq a b)"

text \<open>\<^verbatim>\<open>a > n\<close> for an integer \<open>n\<close>: only numbers can be ordered against an integer.\<close>

fun py_gt_int :: "json \<Rightarrow> int \<Rightarrow> exc + bool" where
  "py_gt_int (JInt m) n = Inr (m > n)"
| "py_gt_int (JBool b) n = Inr (of_bool b > n)"
| "py_gt_int _ n = Inl TypeError"

text \<open>\<^verbatim>\<open>n - a\<close> for an integer \<open>n\<close>\<close>

fun py_int_sub :: "int \<Rightarrow> json \<Rightarrow> exc + int" where
  "py_int_sub n (JInt m) = Inr (n - m)"
| "py_int_sub n (JBool b) = Inr (n - of_bool b)"
| "py_int_sub n _ = Inl TypeError"

text \<open>\<^verbatim>\<open>s + a\<close> for a string \<open>s\<close>: only a string can be appended to a string.\<close>

fun py_str_add :: "string \<Rightarrow> json \<Rightarrow> exc + string" where
  "py_str_add s (JStr t) = Inr (s @ t)"
| "py_str_add s _ = Inl TypeError"

text \<open>\<^verbatim>\<open>k in a\<close> for a string \<open>k\<close>: a key of a dictionary, an element of a list, a
  substring of a string; the other values are not containers.\<close>

fun py_contains :: "string \<Rightarrow> json \<Rightarrow> exc + bool" where
  "py_contains k (JObj d) = Inr (map_of d k \<noteq> None)"
| "py_contains k (JArr xs) = Inr (list_ex (\<lambda>x. py_eq x (JStr k)) xs)"
| "py_contains k (JStr s) = Inr (sublist k s)"
| "py_contains k _ = Inl TypeError"

text \<open>\<^verbatim>\<open>a[k]\<close> for a string \<open>k\<close>\<close>

fun py_getitem :: "json \<Rightarrow> string \<Rightarrow> exc + json" where
  "py_getitem (JObj d) k = (case map_of d k of None \<Rightarrow> Inl (KeyError k) | Some v \<Rightarrow> Inr v)"
| "py_getitem _ k = Inl TypeError"

text \<open>\<^verbatim>\<open>a[k] = v\<close> for a string \<open>k\<close>, returning the container after the assignment\<close>

fun py_setitem :: "json \<Rightarrow> string \<Rightarrow> json \<Rightarrow> exc + json" where
  "py_setitem (JObj d) k v = Inr (JObj (AList.update k v d))"
| "py_setitem _ k v = Inl TypeError"

text \<open>\<^verbatim>\<open>int(a)\<close>. What \<^verbatim>\<open>int\<close> makes of a string (surrounding blanks, a sign,
  underscores between digits) is the parameter \<open>int_of_str\<close>, \<open>None\<close> where it raises.\<close>

fun py_int :: "(string \<Rightarrow> int option) \<Rightarrow> json \<Rightarrow> exc + int" where
  "py_int int_of_str (JInt n) = Inr n"
| "py_int int_of_str (JBool b) = Inr (of_bool b)"
| "py_int int_of_str (JStr s) = (case int_of_str s of None \<Rightarrow> Inl ValueError | Some n \<Rightarrow> Inr n)"
| "py_int int_of_str _ = Inl TypeError"

subsection \<open>Text, client calls and the state\<close>

text \<open>
  A piece of text the script builds: a literal, \<^verbatim>\<open>str(v)\<close>, \<^verbatim>\<open>json.dumps(v, indent = i)\<close>
  with the indent as written in the source, \<^verbatim>\<open>str\<close> of one of the two opaque
  arguments of the message callback, or \<^verbatim>\<open>str\<close> of a caught exception.
\<close>

datatype indent = IndentTab | IndentSpaces nat

datatype piece =
    Lit string
  | Str json
  | Dumps json indent
  | StrClient
  | StrUserdata
  | StrExc exc

type_synonym pytext = "piece list"

text \<open>The calls on \<^verbatim>\<open>client\<close>, with their arguments.\<close>

datatype call =
    Connect json int
  | Subscribe json json
  | LoopStart
  | Reconnect
  | Publish json pytext json
  | Unsubscribe json
  | LoopStop
  | Disconnect

record state =
  telemetry :: "(string \<times> json) list"
  configuration :: json
  config_file_name :: string
  last_publish :: int
  calls :: "call list"
  stdout :: "pytext list"

type_synonym 'a prog = "state \<Rightarrow> (exc + 'a) \<times> state"

definition ret :: "'a \<Rightarrow> 'a prog" where
  "ret x = (\<lambda>s. (Inr x, s))"

definition raise :: "exc \<Rightarrow> 'a prog" where
  "raise e = (\<lambda>s. (Inl e, s))"

definition and_then :: "'a prog \<Rightarrow> ('a \<Rightarrow> 'b prog) \<Rightarrow> 'b prog" where
  "and_then p f = (\<lambda>s. case p s of (Inl e, s') \<Rightarrow> (Inl e, s') | (Inr x, s') \<Rightarrow> f x s')"

definition lift :: "exc + 'a \<Rightarrow> 'a prog" where
  "lift r = (\<lambda>s. (r, s))"

definition print :: "pytext \<Rightarrow> unit prog" where
  "print t = (\<lambda>s. (Inr (), s\<lparr>stdout := stdout s @ [t]\<rparr>))"

text \<open>
  A call on \<^verbatim>\<open>client\<close>: the call is noted in the trace, and it returns or raises as the
  library decides, which is the second argument (\<open>None\<close>: the call returns).
\<close>

definition client :: "call \<Rightarrow> exc option \<Rightarrow> unit prog" where
  "client c outcome =
     (\<lambda>s. (case outcome of None \<Rightarrow> Inr () | Some e \<Rightarrow> Inl e, s\<lparr>calls := calls s @ [c]\<rparr>))"

text \<open>\<^verbatim>\<open>try: p except E: h\<close>, where \<open>catches\<close> says which exceptions are an \<^verbatim>\<open>E\<close>.\<close>

definition try_except :: "'a prog \<Rightarrow> (exc \<Rightarrow> bool) \<Rightarrow> 'a prog \<Rightarrow> 'a prog" where
  "try_except p catches h =
     (\<lambda>s. case p s of
            (Inl e, s') \<Rightarrow> if catches e then h s' else (Inl e, s')
          | (Inr x, s') \<Rightarrow> (Inr x, s'))"

definition config_item :: "string \<Rightarrow> json prog" where
  "config_item k = (\<lambda>s. (py_getitem (configuration s) k, s))"

subsection \<open>The functions of the script\<close>

text \<open>
  \<^verbatim>\<open>get_ip\<close>. The socket is created before the \<^verbatim>\<open>try\<close>; \<open>probe\<close> is the outcome of
  \<^verbatim>\<open>sock.connect(("8.8.8.8", 80))\<close> followed by \<^verbatim>\<open>sock.getsockname()[0]\<close>. The result
  is paired with the socket as \<^verbatim>\<open>finally\<close> leaves it.
\<close>

datatype socket = Open | Closed

definition sock_close :: "socket \<Rightarrow> socket" where
  "sock_close sock = Closed"

definition get_ip :: "exc + string \<Rightarrow> (exc + string) \<times> socket" where
  "get_ip probe =
     (let sock = Open;
          r = (case probe of
                 Inr ip \<Rightarrow> Inr ip
               | Inl e \<Rightarrow>
                   if e = InterruptedError then Inr ''127.0.0.1''
                   else if is_OSError e then Inr ''127.0.0.1''
                   else Inl e)
      in (r, sock_close sock))"

text \<open>What the outside world answers during one publish: \<^verbatim>\<open>gz.CPUTemperature().temperature\<close>,
  \<^verbatim>\<open>get_timestamp()\<close>, \<^verbatim>\<open>epoch_time()\<close>, and the exception \<^verbatim>\<open>client.publish\<close> raises,
  if any.\<close>

record readings =
  temperature :: json
  timestamp :: string
  epoch :: int
  publish_raises :: "exc option"

definition poll_telemetry :: "readings \<Rightarrow> unit prog" where
  "poll_telemetry r =
     (\<lambda>s. (Inr (), s\<lparr>telemetry := AList.update ''cpuTemp'' (temperature r) (telemetry s)\<rparr>))"

definition publish_telemetry :: "readings \<Rightarrow> unit prog" where
  "publish_telemetry r =
     and_then (\<lambda>s. (Inr (), s\<lparr>telemetry := AList.update ''timeStamp'' (JStr (timestamp r)) (telemetry s)\<rparr>)) (\<lambda>_.
     and_then (config_item ''publishTopic'') (\<lambda>topic.
     and_then (config_item ''brokerQoS'') (\<lambda>qos.
     and_then (\<lambda>s. client (Publish topic [Dumps (JObj (telemetry s)) IndentTab] qos)
                       (publish_raises r) s) (\<lambda>_.
     and_then (config_item ''publishTopic'') (\<lambda>topic'.
     and_then (lift (py_str_add (''Publishing this to '' @ sq) topic')) (\<lambda>line.
     and_then (print [Lit (line @ sq @ '':'')]) (\<lambda>_.
     (\<lambda>s. print [Dumps (JObj (telemetry s)) (IndentSpaces 3)] s))))))))"

text \<open>What the three calls of one \<^verbatim>\<open>close_mqtt\<close> raise, if anything.\<close>

record closing =
  unsubscribe_raises :: "exc option"
  loop_stop_raises :: "exc option"
  disconnect_raises :: "exc option"

definition close_mqtt :: "closing \<Rightarrow> unit prog" where
  "close_mqtt k =
     and_then (config_item ''controlTopic'') (\<lambda>topic.
     and_then (client (Unsubscribe topic) (unsubscribe_raises k)) (\<lambda>_.
     and_then (client LoopStop (loop_stop_raises k)) (\<lambda>_.
     client Disconnect (disconnect_raises k))))"

text \<open>
  \<^verbatim>\<open>on_message\<close>. \<open>decoded\<close> is the outcome of
  \<^verbatim>\<open>json.loads(str(msg.payload.decode('utf-8')))\<close>; \<open>r\<close> holds what the sensor and the
  clock answer if the command publishes.
\<close>

definition on_message :: "exc + json \<Rightarrow> readings \<Rightarrow> unit prog" where
  "on_message decoded r =
     and_then (lift decoded) (\<lambda>message.
     and_then (print [Dumps message IndentTab]) (\<lambda>_.
     and_then (lift (py_contains ''command'' message)) (\<lambda>has_command.
     if has_command then
       and_then (lift (py_getitem message ''command'')) (\<lambda>command.
       and_then (lift (py_str_add (''Processing command '' @ dq) command)) (\<lambda>line.
       and_then (print [Lit (line @ dq)]) (\<lambda>_.
       if py_eq command (JStr ''publishTelemetry'') then
         and_then (poll_telemetry r) (\<lambda>_.
         and_then (publish_telemetry r) (\<lambda>_.
         (\<lambda>s. (Inr (), s\<lparr>last_publish := epoch r\<rparr>))))
       else if py_eq command (JStr ''changeTelemetryInterval'') then
         and_then (config_item ''publishInterval'') (\<lambda>old_value.
         and_then (lift (py_getitem message ''value'')) (\<lambda>new_value.
         and_then (if py_ne old_value new_value then lift (py_gt_int new_value 4) else ret False) (\<lambda>change.
         if change then
           and_then (lift (py_str_add ''Old publish interval: '' old_value)) (\<lambda>old_line.
           and_then (print [Lit old_line]) (\<lambda>_.
           and_then (\<lambda>s. case py_setitem (configuration s) ''publishInterval'' new_value of
                            Inl e \<Rightarrow> (Inl e, s)
                          | Inr c \<Rightarrow> (Inr (), s\<lparr>configuration := c\<rparr>)) (\<lambda>_.
           and_then (config_item ''publishInterval'') (\<lambda>stored.
           and_then (lift (py_str_add ''New publish interval: '' stored)) (\<lambda>new_line.
           print [Lit new_line])))))
         else
           print [Lit ''Not changing the telemetry publish interval.''])))
       else if py_eq command (JStr ''publishStatus'') then
         publish_telemetry r
       else if py_eq command (JStr ''debug'') then
         and_then (print [StrClient]) (\<lambda>_.
         print [StrUserdata])
       else
         and_then (print [Lit (''The command '' @ dq), Str command, Lit (dq @ '' is not recognized.'')]) (\<lambda>_.
         print [Lit (''Currently recognized commands are:'' @ nl @ tab @ ''publishTelemetry''
                       @ nl @ tab @ ''changeTelemetryInterval''
                       @ nl @ tab @ ''changeSeaLevelPressure''
                       @ nl @ tab @ ''publishStatus'')]))))
     else
       print [Lit ''Message did not contain a command property.''])))"

text \<open>
  One pass through the body of \<^verbatim>\<open>while True\<close>: \<open>connected\<close> is what
  \<^verbatim>\<open>client.is_connected()\<close> answers, \<open>reconnected\<close> the exception \<^verbatim>\<open>client.reconnect()\<close>
  raises, if any, \<open>current_time\<close> the \<^verbatim>\<open>epoch_time()\<close> read before the comparison, and
  \<open>published\<close> the readings taken if the pass publishes (its \<open>epoch\<close> is the second
  \<^verbatim>\<open>epoch_time()\<close>, read after the publish), and \<open>closing\<close> what the calls of the
  \<^verbatim>\<open>close_mqtt\<close> of line 177 raise if the pass gets there. \<^verbatim>\<open>time.sleep(3)\<close> is taken
  to return.
\<close>

record tick =
  connected :: bool
  reconnected :: "exc option"
  current_time :: int
  published :: readings
  closing :: closing

datatype flow = Continue | Break

definition loop_body :: "tick \<Rightarrow> flow prog" where
  "loop_body t =
     and_then
       (if \<not> connected t then
          try_except
            (and_then (client Reconnect (reconnected t)) (\<lambda>_.
             ret Continue))
            (\<lambda>e. e = TimeoutError)
            (and_then (print [Lit ''Timeout encountered while trying to reconnect to the MQTT broker!'']) (\<lambda>_.
             and_then (close_mqtt (closing t)) (\<lambda>_.
             ret Break)))
        else ret Continue) (\<lambda>reached.
     case reached of
       Break \<Rightarrow> ret Break
     | Continue \<Rightarrow>
         and_then (config_item ''publishInterval'') (\<lambda>interval.
         and_then (lift (py_int_sub (current_time t) interval)) (\<lambda>difference.
         and_then (\<lambda>s. (Inr (difference > last_publish s), s)) (\<lambda>due.
         if due then
           and_then (poll_telemetry (published t)) (\<lambda>_.
           and_then (publish_telemetry (published t)) (\<lambda>_.
           and_then (\<lambda>s. (Inr (), s\<lparr>last_publish := epoch (published t)\<rparr>)) (\<lambda>_.
           ret Continue)))
         else ret Continue))))"

text \<open>
  The loop never ends by itself, so it is run on the finite list of what happens to it:
  a pass through the body, or a keyboard interrupt arriving between two passes. The result
  \<open>Continue\<close> says that the loop is still running when the list is used up.
\<close>

datatype event = Interrupt | Pass tick

fun main_loop :: "event list \<Rightarrow> flow prog" where
  "main_loop [] s = (Inr Continue, s)"
| "main_loop (Interrupt # evs) s = (Inl KeyboardInterrupt, s)"
| "main_loop (Pass t # evs) s =
     (case loop_body t s of
        (Inl e, s') \<Rightarrow> (Inl e, s')
      | (Inr Break, s') \<Rightarrow> (Inr Break, s')
      | (Inr Continue, s') \<Rightarrow> main_loop evs s')"

text \<open>
  \<^verbatim>\<open>telemetry['macAddress']\<close> as the module computes it from \<^verbatim>\<open>get_mac()\<close>:
  \<^verbatim>\<open>"%012X"\<close>, cut into six pairs joined by colons.
\<close>

definition hex_digit :: "nat \<Rightarrow> char" where
  "hex_digit d = ''0123456789ABCDEF'' ! d"

fun hex :: "nat \<Rightarrow> string" where
  "hex n = (if n < 16 then [hex_digit n] else hex (n div 16) @ [hex_digit (n mod 16)])"

fun join :: "string \<Rightarrow> string list \<Rightarrow> string" where
  "join sep [] = []"
| "join sep [x] = x"
| "join sep (x # y # ys) = x @ sep @ join sep (y # ys)"

definition mac_address :: "nat \<Rightarrow> string" where
  "mac_address node =
     (let digits = hex node;
          padded = replicate (12 - length digits) CHR ''0'' @ digits
      in join '':'' (map (\<lambda>i. take 2 (drop i padded)) [0, 2, 4, 6, 8, 10]))"

text \<open>The globals as the module leaves them before \<^verbatim>\<open>main\<close> runs.\<close>

definition module_state :: "nat \<Rightarrow> state" where
  "module_state node =
     \<lparr>telemetry = [(''macAddress'', JStr (mac_address node))],
      configuration = JObj [],
      config_file_name = ''config.json'',
      last_publish = 0,
      calls = [],
      stdout = []\<rparr>"

text \<open>
  What \<^verbatim>\<open>main\<close> meets: its arguments, the files (\<^verbatim>\<open>open\<close> and \<^verbatim>\<open>json.load\<close> on a
  name), the probe of \<^verbatim>\<open>get_ip\<close>, the host name, the two \<^verbatim>\<open>get_timestamp()\<close> of the
  start, the exceptions \<^verbatim>\<open>client.connect\<close>, \<^verbatim>\<open>client.subscribe\<close> and
  \<^verbatim>\<open>client.loop_start\<close> raise, if any, the first component of what \<^verbatim>\<open>client.subscribe\<close>
  returns, what happens to the loop, and what the calls of the \<^verbatim>\<open>close_mqtt\<close> of a
  handler raise.
\<close>

record world =
  argv :: "string list"
  int_of_str :: "string \<Rightarrow> int option"
  files :: "string \<Rightarrow> exc + json"
  probe :: "exc + string"
  hostname :: string
  stamp_stored :: string
  stamp_printed :: string
  connect_raises :: "exc option"
  subscribe_raises :: "exc option"
  subscribe_result :: int
  loop_start_raises :: "exc option"
  events :: "event list"
  handler_closing :: closing

definition set_telemetry :: "string \<Rightarrow> json \<Rightarrow> unit prog" where
  "set_telemetry k v = (\<lambda>s. (Inr (), s\<lparr>telemetry := AList.update k v (telemetry s)\<rparr>))"

text \<open>
  Lines 129 to 168 of \<^verbatim>\<open>main\<close>, everything in the \<^verbatim>\<open>try\<close> before the loop, in four
  parts: reading the configuration file (129 to 134), the static components of the
  telemetry (137 to 144), the printed settings (145 to 153), and the connection with the
  subscription and \<^verbatim>\<open>loop_start\<close> (162 to 168). Assigning the callbacks (156 to 159)
  changes nothing that the model holds.
\<close>

definition read_configuration :: "world \<Rightarrow> unit prog" where
  "read_configuration w =
     and_then (\<lambda>s. (Inr (), if length (argv w) > 1 then s\<lparr>config_file_name := argv w ! 1\<rparr> else s)) (\<lambda>_.
     and_then (\<lambda>s. print [Lit (''Using '' @ config_file_name s @ '' as the config file.'')] s) (\<lambda>_.
     (\<lambda>s. case files w (config_file_name s) of
            Inl e \<Rightarrow> (Inl e, s)
          | Inr c \<Rightarrow> (Inr (), s\<lparr>configuration := c\<rparr>))))"

definition set_static_components :: "world \<Rightarrow> unit prog" where
  "set_static_components w =
     and_then (lift (fst (get_ip (probe w)))) (\<lambda>ip.
     and_then (set_telemetry ''ipAddress'' (JStr ip)) (\<lambda>_.
     and_then (set_telemetry ''host'' (JStr (hostname w))) (\<lambda>_.
     and_then (set_telemetry ''timeStamp'' (JStr (stamp_stored w))) (\<lambda>_.
     and_then (\<lambda>s. lift (py_contains ''notes'' (configuration s)) s) (\<lambda>has_notes.
     and_then (if has_notes then and_then (config_item ''notes'') (set_telemetry ''notes'') else ret ()) (\<lambda>_.
     and_then (and_then (config_item ''brokerAddress'') (set_telemetry ''brokerAddress'')) (\<lambda>_.
     and_then (config_item ''brokerPort'') (set_telemetry ''brokerPort''))))))))"

definition print_settings :: "world \<Rightarrow> unit prog" where
  "print_settings w =
     and_then (print [Lit (''Hostname: '' @ hostname w)]) (\<lambda>_.
     and_then (\<lambda>s. lift (py_getitem (JObj (telemetry s)) ''ipAddress'') s) (\<lambda>ip.
     and_then (lift (py_str_add ''IP address: '' ip)) (\<lambda>line.
     and_then (print [Lit line]) (\<lambda>_.
     and_then (print [Lit (''Current time: '' @ stamp_printed w)]) (\<lambda>_.
     and_then (config_item ''brokerAddress'') (\<lambda>address.
     and_then (lift (py_str_add ''Using broker address: '' address)) (\<lambda>line.
     and_then (print [Lit line]) (\<lambda>_.
     and_then (config_item ''brokerPort'') (\<lambda>port.
     and_then (lift (py_str_add ''Using broker port: '' port)) (\<lambda>line.
     and_then (print [Lit line]) (\<lambda>_.
     and_then (config_item ''publishTopic'') (\<lambda>topic.
     and_then (lift (py_str_add (''Publishing to the telemetry topic: '' @ dq) topic)) (\<lambda>line.
     and_then (print [Lit (line @ dq)]) (\<lambda>_.
     and_then (config_item ''controlTopic'') (\<lambda>topic.
     and_then (lift (py_str_add (''Subscribing to the control topic: '' @ dq) topic)) (\<lambda>line.
     and_then (print [Lit (line @ dq)]) (\<lambda>_.
     and_then (config_item ''brokerQoS'') (\<lambda>qos.
     and_then (print [Lit ''Publishing and subscribing using QoS: '', Str qos]) (\<lambda>_.
     and_then (config_item ''publishInterval'') (\<lambda>interval.
     print [Lit ''Waiting '', Str interval, Lit '' seconds between publishes (non-blocking).'']))))))))))))))))))))"

definition connect_and_subscribe :: "world \<Rightarrow> unit prog" where
  "connect_and_subscribe w =
     and_then (config_item ''brokerAddress'') (\<lambda>address.
     and_then (config_item ''brokerPort'') (\<lambda>port.
     and_then (lift (py_int (int_of_str w) port)) (\<lambda>port_number.
     and_then (client (Connect address port_number) (connect_raises w)) (\<lambda>_.
     and_then (config_item ''controlTopic'') (\<lambda>topic.
     and_then (config_item ''brokerQoS'') (\<lambda>qos.
     and_then (client (Subscribe topic qos) (subscribe_raises w)) (\<lambda>_.
     and_then (if subscribe_result w = 0
               then and_then (config_item ''controlTopic'') (\<lambda>topic'.
                    and_then (lift (py_str_add (''Successfully subscribed to the control topic: '' @ dq) topic')) (\<lambda>line.
                    print [Lit (line @ dq)]))
               else ret ()) (\<lambda>_.
     client LoopStart (loop_start_raises w)))))))))"

definition startup :: "world \<Rightarrow> unit prog" where
  "startup w =
     and_then (read_configuration w) (\<lambda>_.
     and_then (set_static_components w) (\<lambda>_.
     and_then (print_settings w) (\<lambda>_.
     connect_and_subscribe w)))"

text \<open>
  \<^verbatim>\<open>main\<close>: the \<^verbatim>\<open>try\<close> block and its four handlers, in the order of the source. An
  exception that no handler takes leaves \<^verbatim>\<open>main\<close>; so does one raised inside a handler.
\<close>

datatype status = Running | Returned

definition main_try :: "world \<Rightarrow> flow prog" where
  "main_try w = and_then (startup w) (\<lambda>_. main_loop (events w))"

definition main :: "world \<Rightarrow> status prog" where
  "main w = (\<lambda>s.
     case main_try w s of
       (Inr Continue, s') \<Rightarrow> (Inr Running, s')
     | (Inr Break, s') \<Rightarrow> (Inr Returned, s')
     | (Inl e, s') \<Rightarrow>
         if e = KeyboardInterrupt then
           and_then (print [Lit (nl @ ''Keyboard interrupt detected, exiting...'' @ nl)]) (\<lambda>_.
           and_then (close_mqtt (handler_closing w)) (\<lambda>_.
           ret Returned)) s'
         else if is_KeyError e then
           and_then (print [Lit ''Python dictionary key error: '', StrExc e]) (\<lambda>_.
           ret Returned) s'
         else if e = ConnectionRefusedError then
           and_then (print [Lit ''Connection error: '', StrExc e]) (\<lambda>_.
           ret Returned) s'
         else if e = TimeoutError then
           and_then (print [Lit ''Timeout encountered while connecting to the MQTT broker!'']) (\<lambda>_.
           and_then (close_mqtt (handler_closing w)) (\<lambda>_.
           ret Returned)) s'
         else (Inl e, s'))"

subsection \<open>Reading the trace of client calls\<close>

fun is_Subscribe :: "call \<Rightarrow> bool" where
  "is_Subscribe (Subscribe topic qos) = True"
| "is_Subscribe _ = False"

fun is_Publish :: "call \<Rightarrow> bool" where
  "is_Publish (Publish topic payload qos) = True"
| "is_Publish _ = False"

fun is_Unsubscribe :: "call \<Rightarrow> bool" where
  "is_Unsubscribe (Unsubscribe topic) = True"
| "is_Unsubscribe _ = False"

text \<open>
  How often \<^verbatim>\<open>close_mqtt\<close> was begun, and how often it got to its last call:
  \<^verbatim>\<open>client.unsubscribe\<close>, its first call, and \<^verbatim>\<open>client.disconnect\<close>, its last, are
  called nowhere else.
\<close>

definition closes_begun :: "state \<Rightarrow> nat" where
  "closes_begun s = length (filter is_Unsubscribe (calls s))"

definition closes_ended :: "state \<Rightarrow> nat" where
  "closes_ended s = count_list (calls s) Disconnect"


text \<open>A property of the state that a program keeps, whether it returns or raises.\<close>

definition invariant :: "(state \<Rightarrow> bool) \<Rightarrow> 'a prog \<Rightarrow> bool" where
  "invariant P p = (\<forall>s. P s \<longrightarrow> P (snd (p s)))"

subsection \<open>Concrete inputs\<close>

text \<open>A configuration file as the script needs it: the broker port is a string.\<close>

definition example_configuration :: json where
  "example_configuration =
     JObj [(''brokerAddress'', JStr ''broker.local''),
           (''brokerPort'', JStr ''1883''),
           (''brokerQoS'', JInt 1),
           (''publishTopic'', JStr ''stats/cpu''),
           (''controlTopic'', JStr ''stats/control''),
           (''publishInterval'', JInt 5)]"

text \<open>The same configuration with the broker port as an integer.\<close>

definition integer_port_configuration :: json where
  "integer_port_configuration =
     JObj [(''brokerAddress'', JStr ''broker.local''),
           (''brokerPort'', JInt 1883),
           (''brokerQoS'', JInt 1),
           (''publishTopic'', JStr ''stats/cpu''),
           (''controlTopic'', JStr ''stats/control''),
           (''publishInterval'', JInt 5)]"

definition no_raise :: closing where
  "no_raise =
     \<lparr>unsubscribe_raises = None, loop_stop_raises = None, disconnect_raises = None\<rparr>"

definition example_readings :: readings where
  "example_readings =
     \<lparr>temperature = JInt 42, timestamp = ''2024-01-01 00:00:10'', epoch = 200,
      publish_raises = None\<rparr>"

definition example_state :: state where
  "example_state =
     \<lparr>telemetry = [(''macAddress'', JStr ''00:11:22:33:44:55''), (''cpuTemp'', JInt 40)],
      configuration = example_configuration,
      config_file_name = ''config.json'',
      last_publish = 100,
      calls = [],
      stdout = []\<rparr>"

definition example_world :: world where
  "example_world =
     \<lparr>argv = [''LinuxStatsToMQTT.py''],
      int_of_str = (\<lambda>s. if s = ''1883'' then Some 1883 else None),
      files = (\<lambda>name. if name = ''config.json'' then Inr example_configuration else Inl OSError),
      probe = Inr ''192.168.1.20'',
      hostname = ''raspberrypi'',
      stamp_stored = ''2024-01-01 00:00:00'',
      stamp_printed = ''2024-01-01 00:00:00'',
      connect_raises = None,
      subscribe_raises = None,
      subscribe_result = 0,
      loop_start_raises = None,
      events = [],
      handler_closing = no_raise\<rparr>"

definition example_tick :: "bool \<Rightarrow> exc option \<Rightarrow> int \<Rightarrow> tick" where
  "example_tick c r n =
     \<lparr>connected = c, reconnected = r, current_time = n, published = example_readings,
      closing = no_raise\<rparr>"

section \<open>Properties\<close>

subsection \<open>Sequencing and invariants\<close>

lemmas prog_defs =
  and_then_def ret_def raise_def lift_def print_def client_def config_item_def
  try_except_def

lemmas startup_defs =
  startup_def read_configuration_def set_static_components_def print_settings_def
  connect_and_subscribe_def

lemma invariantD: "invariant P p \<Longrightarrow> P s \<Longrightarrow> p s = (x, s') \<Longrightarrow> P s'"
  by (auto simp add: invariant_def dest: spec [of _ s])

lemma invariant_and_then:
  assumes "invariant P p" and "\<And>x. invariant P (f x)"
  shows "invariant P (and_then p f)"
proof -
  have "P (snd (and_then p f s))" if "P s" for s
  proof (cases "p s")
    case (Pair y s1)
    with assms(1) that have s1: "P s1"
      by (auto dest: invariantD)
    show ?thesis
    proof (cases y)
      case (Inl e)
      with Pair s1 show ?thesis by (simp add: and_then_def)
    next
      case (Inr x)
      with Pair s1 assms(2) [of x] show ?thesis
        by (simp add: and_then_def invariant_def)
    qed
  qed
  then show ?thesis by (simp add: invariant_def)
qed

lemma invariant_if:
  "invariant P p \<Longrightarrow> invariant P q \<Longrightarrow> invariant P (if b then p else q)"
  by simp

lemma invariant_pure:
  "invariant P (ret x)" "invariant P (raise e)" "invariant P (lift r)"
  "invariant P (config_item k)"
  by (simp_all add: invariant_def prog_defs)

subsection \<open>The MAC address\<close>

lemma mac_address_example: "mac_address 0xB827EB123456 = ''B8:27:EB:12:34:56''"
  by (simp add: mac_address_def hex_digit_def)

lemma mac_address_padded: "mac_address 0x1122AABBCC = ''00:11:22:AA:BB:CC''"
  by (simp add: mac_address_def hex_digit_def numeral_2_eq_2)

subsection \<open>Publishing and closing\<close>

lemma poll_telemetry_result:
  "poll_telemetry r s =
     (Inr (), s\<lparr>telemetry := AList.update ''cpuTemp'' (temperature r) (telemetry s)\<rparr>)"
  by (simp add: poll_telemetry_def)

lemma publish_telemetry_frame:
  assumes "publish_telemetry r s = (x, s')"
  shows "configuration s' = configuration s \<and> last_publish s' = last_publish s \<and>
         config_file_name s' = config_file_name s \<and>
         telemetry s' = AList.update ''timeStamp'' (JStr (timestamp r)) (telemetry s)"
  using assms
  by (auto simp add: publish_telemetry_def prog_defs split: sum.splits option.splits)

lemma publish_telemetry_added:
  assumes "publish_telemetry r s = (x, s')"
  shows "\<exists>added. calls s' = calls s @ added \<and> \<not> list_ex is_Subscribe added \<and>
           filter is_Unsubscribe added = [] \<and> count_list added Disconnect = 0"
  using assms
  by (auto simp add: publish_telemetry_def prog_defs split: sum.splits option.splits)

lemma close_mqtt_frame:
  assumes "close_mqtt k s = (x, s')"
  shows "configuration s' = configuration s \<and> config_file_name s' = config_file_name s"
  using assms
  by (auto simp add: close_mqtt_def prog_defs split: sum.splits option.splits)

lemma close_mqtt_added:
  assumes "close_mqtt k s = (x, s')"
  shows "\<exists>added. calls s' = calls s @ added \<and> \<not> list_ex is_Subscribe added \<and>
           length (filter is_Unsubscribe added) =
             (if isl (py_getitem (configuration s) ''controlTopic'') then 0 else 1) \<and>
           count_list added Disconnect \<le> length (filter is_Unsubscribe added) \<and>
           (x = Inr () \<longrightarrow>
              length (filter is_Unsubscribe added) = 1 \<and> count_list added Disconnect = 1)"
  using assms
  by (auto simp add: close_mqtt_def prog_defs split: sum.splits option.splits)

lemma close_mqtt_returns:
  assumes "py_getitem (configuration s) ''controlTopic'' = Inr topic"
    and "unsubscribe_raises k = None" and "loop_stop_raises k = None"
    and "disconnect_raises k = None"
  shows "close_mqtt k s =
           (Inr (), s\<lparr>calls := calls s @ [Unsubscribe topic, LoopStop, Disconnect]\<rparr>)"
  using assms by (simp add: close_mqtt_def prog_defs)

subsection \<open>The loop\<close>

lemma loop_body_frame:
  assumes "loop_body t s = (x, s')"
  shows "configuration s' = configuration s \<and> config_file_name s' = config_file_name s"
proof (cases "connected t \<or> reconnected t \<noteq> Some TimeoutError")
  case True
  with assms show ?thesis
    by (auto simp add: loop_body_def prog_defs poll_telemetry_result
          split: sum.splits option.splits if_splits prod.splits flow.splits
          dest!: publish_telemetry_frame)
next
  case False
  obtain y s1 where c: "close_mqtt (closing t)
      (s\<lparr>calls := calls s @ [Reconnect],
         stdout := stdout s @
           [[Lit ''Timeout encountered while trying to reconnect to the MQTT broker!'']]\<rparr>)
      = (y, s1)"
    by (cases "close_mqtt (closing t)
      (s\<lparr>calls := calls s @ [Reconnect],
         stdout := stdout s @
           [[Lit ''Timeout encountered while trying to reconnect to the MQTT broker!'']]\<rparr>)")
  from close_mqtt_frame [OF c] False assms c show ?thesis
    by (cases y) (auto simp add: loop_body_def prog_defs)
qed

lemma loop_body_added:
  assumes "loop_body t s = (x, s')"
  shows "\<exists>added. calls s' = calls s @ added \<and> \<not> list_ex is_Subscribe added \<and>
           length (filter is_Unsubscribe added) \<le> 1 \<and>
           count_list added Disconnect \<le> length (filter is_Unsubscribe added) \<and>
           (x = Inr Break \<longrightarrow>
              length (filter is_Unsubscribe added) = 1 \<and> count_list added Disconnect = 1) \<and>
           (x = Inr Continue \<longrightarrow> length (filter is_Unsubscribe added) = 0)"
proof (cases "connected t \<or> reconnected t \<noteq> Some TimeoutError")
  case True
  with assms show ?thesis
    by (auto simp add: loop_body_def prog_defs poll_telemetry_result
          split: sum.splits option.splits if_splits prod.splits flow.splits
          dest!: publish_telemetry_added)
next
  case False
  let ?s0 = "s\<lparr>calls := calls s @ [Reconnect],
         stdout := stdout s @
           [[Lit ''Timeout encountered while trying to reconnect to the MQTT broker!'']]\<rparr>"
  obtain y s1 where c: "close_mqtt (closing t) ?s0 = (y, s1)"
    by (cases "close_mqtt (closing t) ?s0")
  from close_mqtt_added [OF c]
  obtain a where a: "calls s1 = calls ?s0 @ a" "\<not> list_ex is_Subscribe a"
    "length (filter is_Unsubscribe a) \<le> 1"
    "count_list a Disconnect \<le> length (filter is_Unsubscribe a)"
    "y = Inr () \<longrightarrow> length (filter is_Unsubscribe a) = 1 \<and> count_list a Disconnect = 1"
    by (auto split: if_splits)
  from False assms c have "s' = s1 \<and> x = (case y of Inl e \<Rightarrow> Inl e | Inr u \<Rightarrow> Inr Break)"
    by (cases y) (auto simp add: loop_body_def prog_defs)
  with a show ?thesis
    by (intro exI [of _ "Reconnect # a"]) (auto split: sum.splits)
qed

lemma main_loop_frame:
  assumes "main_loop evs s = (x, s')"
  shows "configuration s' = configuration s \<and> config_file_name s' = config_file_name s"
  using assms
proof (induction evs arbitrary: s)
  case Nil
  then show ?case by auto
next
  case (Cons ev evs)
  show ?case
  proof (cases ev)
    case Interrupt
    with Cons.prems show ?thesis by auto
  next
    case (Pass t)
    obtain y s1 where body: "loop_body t s = (y, s1)"
      by (cases "loop_body t s")
    note frame = loop_body_frame [OF body]
    show ?thesis
    proof (cases y)
      case (Inl e)
      with Cons.prems Pass body frame show ?thesis by auto
    next
      case (Inr f)
      show ?thesis
      proof (cases f)
        case Continue
        with Cons.prems Pass body Inr have "main_loop evs s1 = (x, s')"
          by simp
        from Cons.IH [OF this] frame show ?thesis by simp
      next
        case Break
        with Cons.prems Pass body frame Inr show ?thesis by auto
      qed
    qed
  qed
qed

lemma main_loop_added:
  assumes "main_loop evs s = (x, s')"
  shows "\<exists>added. calls s' = calls s @ added \<and> \<not> list_ex is_Subscribe added \<and>
           length (filter is_Unsubscribe added) \<le> 1 \<and>
           count_list added Disconnect \<le> length (filter is_Unsubscribe added) \<and>
           (x = Inr Break \<longrightarrow>
              length (filter is_Unsubscribe added) = 1 \<and> count_list added Disconnect = 1) \<and>
           (x = Inr Continue \<longrightarrow> length (filter is_Unsubscribe added) = 0)"
  using assms
proof (induction evs arbitrary: s)
  case Nil
  then show ?case by auto
next
  case (Cons ev evs)
  show ?case
  proof (cases ev)
    case Interrupt
    with Cons.prems show ?thesis by auto
  next
    case (Pass t)
    obtain y s1 where body: "loop_body t s = (y, s1)"
      by (cases "loop_body t s")
    from loop_body_added [OF body]
    obtain a1 where a1: "calls s1 = calls s @ a1" "\<not> list_ex is_Subscribe a1"
      "length (filter is_Unsubscribe a1) \<le> 1"
      "count_list a1 Disconnect \<le> length (filter is_Unsubscribe a1)"
      "y = Inr Break \<longrightarrow>
         length (filter is_Unsubscribe a1) = 1 \<and> count_list a1 Disconnect = 1"
      "y = Inr Continue \<longrightarrow> length (filter is_Unsubscribe a1) = 0"
      by blast
    show ?thesis
    proof (cases y)
      case (Inl e)
      with Cons.prems Pass body have "s' = s1" "x = Inl e" by auto
      with a1 show ?thesis
        by (intro exI [of _ a1]) simp
    next
      case (Inr f)
      show ?thesis
      proof (cases f)
        case Continue
        with Cons.prems Pass body Inr have "main_loop evs s1 = (x, s')"
          by simp
        from Cons.IH [OF this]
        obtain a2 where "calls s' = calls s1 @ a2" "\<not> list_ex is_Subscribe a2"
          "length (filter is_Unsubscribe a2) \<le> 1"
          "count_list a2 Disconnect \<le> length (filter is_Unsubscribe a2)"
          "x = Inr Break \<longrightarrow>
             length (filter is_Unsubscribe a2) = 1 \<and> count_list a2 Disconnect = 1"
          "x = Inr Continue \<longrightarrow> length (filter is_Unsubscribe a2) = 0"
          by blast
        with a1 Inr Continue show ?thesis
          by (intro exI [of _ "a1 @ a2"]) simp
      next
        case Break
        with Cons.prems Pass body Inr have "s' = s1" "x = Inr Break" by auto
        with a1 Inr Break show ?thesis
          by (intro exI [of _ a1]) simp
      qed
    qed
  qed
qed

lemma main_loop_append:
  "main_loop (evs @ evs') s =
     (case main_loop evs s of
        (Inr Continue, s') \<Rightarrow> main_loop evs' s'
      | other \<Rightarrow> other)"
proof (induction evs s rule: main_loop.induct)
  case (1 s)
  then show ?case by simp
next
  case (2 evs s)
  then show ?case by simp
next
  case (3 t evs s)
  then show ?case
    by (auto split: prod.splits sum.splits flow.splits)
qed

lemma loop_body_early:
  assumes "py_getitem (configuration s) ''publishInterval'' = Inr (JInt N)"
    and "connected t \<or> reconnected t = None"
    and "current_time t \<le> last_publish s + N"
  shows "loop_body t s =
           (Inr Continue, s\<lparr>calls := calls s @ (if connected t then [] else [Reconnect])\<rparr>)"
  using assms by (auto simp add: loop_body_def prog_defs)

lemma loop_body_due:
  assumes "py_getitem (configuration s) ''publishInterval'' = Inr (JInt N)"
    and "py_getitem (configuration s) ''publishTopic'' = Inr (JStr topic)"
    and "py_getitem (configuration s) ''brokerQoS'' = Inr qos"
    and "connected t \<or> reconnected t = None"
    and "publish_raises (published t) = None"
    and "current_time t > last_publish s + N"
  shows "\<exists>s'. loop_body t s = (Inr Continue, s') \<and>
           configuration s' = configuration s \<and>
           last_publish s' = epoch (published t) \<and>
           telemetry s' = AList.update ''timeStamp'' (JStr (timestamp (published t)))
                            (AList.update ''cpuTemp'' (temperature (published t)) (telemetry s)) \<and>
           calls s' = calls s @ (if connected t then [] else [Reconnect]) @
                        [Publish (JStr topic) [Dumps (JObj (telemetry s')) IndentTab] qos]"
  using assms
  by (auto simp add: loop_body_def prog_defs publish_telemetry_def poll_telemetry_def)

lemma main_loop_early:
  assumes "py_getitem (configuration s) ''publishInterval'' = Inr (JInt N)"
    and "\<forall>t \<in> set ts. (connected t \<or> reconnected t = None) \<and>
                       current_time t \<le> last_publish s + N"
  shows "\<exists>s'. main_loop (map Pass ts) s = (Inr Continue, s') \<and>
           configuration s' = configuration s \<and> last_publish s' = last_publish s \<and>
           telemetry s' = telemetry s \<and>
           filter is_Publish (calls s') = filter is_Publish (calls s)"
  using assms
proof (induction ts arbitrary: s)
  case Nil
  then show ?case by simp
next
  case (Cons t ts)
  let ?s1 = "s\<lparr>calls := calls s @ (if connected t then [] else [Reconnect])\<rparr>"
  have body: "loop_body t s = (Inr Continue, ?s1)"
    using Cons.prems by (intro loop_body_early) auto
  have "\<exists>s'. main_loop (map Pass ts) ?s1 = (Inr Continue, s') \<and>
           configuration s' = configuration ?s1 \<and> last_publish s' = last_publish ?s1 \<and>
           telemetry s' = telemetry ?s1 \<and>
           filter is_Publish (calls s') = filter is_Publish (calls ?s1)"
    using Cons.prems by (intro Cons.IH) auto
  with body show ?case by auto
qed

subsection \<open>The start and the handlers\<close>

lemma startup_closes:
  "invariant (\<lambda>s. closes_begun s = n \<and> closes_ended s = m) (startup w)"
  unfolding startup_defs closes_begun_def closes_ended_def
  by (intro invariant_and_then invariant_if invariant_pure;
      simp add: invariant_def prog_defs set_telemetry_def split: sum.splits option.splits)

lemma after_read_configuration:
  "invariant (\<lambda>s. configuration s = c)
     (and_then (set_static_components w) (\<lambda>_.
      and_then (print_settings w) (\<lambda>_.
      connect_and_subscribe w)))"
  unfolding set_static_components_def print_settings_def connect_and_subscribe_def
  by (intro invariant_and_then invariant_if invariant_pure;
      simp add: invariant_def prog_defs set_telemetry_def split: sum.splits option.splits)

lemma startup_after_read:
  "configuration (snd (startup w s)) = configuration (snd (read_configuration w s))"
proof (cases "read_configuration w s")
  case (Pair y s1)
  show ?thesis
  proof (cases y)
    case (Inl e)
    with Pair show ?thesis by (simp add: startup_def and_then_def)
  next
    case (Inr u)
    let ?rest = "and_then (set_static_components w) (\<lambda>_.
      and_then (print_settings w) (\<lambda>_. connect_and_subscribe w))"
    from Pair Inr have "startup w s = ?rest s1"
      by (simp add: startup_def and_then_def)
    moreover have "configuration (snd (?rest s1)) = configuration s1"
      using after_read_configuration [of "configuration s1" w]
      by (simp add: invariant_def)
    ultimately show ?thesis using Pair by simp
  qed
qed

lemma read_configuration_result:
  assumes "files w (if length (argv w) > 1 then argv w ! 1 else config_file_name s) = Inr c"
  shows "\<exists>s'. read_configuration w s = (Inr (), s') \<and> configuration s' = c \<and>
           telemetry s' = telemetry s \<and> calls s' = calls s \<and>
           last_publish s' = last_publish s"
proof (cases "length (argv w) > 1")
  case True
  with assms have "files w (argv w ! 1) = Inr c" by simp
  with True show ?thesis
    by (simp add: read_configuration_def prog_defs)
next
  case False
  with assms have "files w (config_file_name s) = Inr c" by simp
  with False show ?thesis
    by (simp add: read_configuration_def prog_defs)
qed

lemma read_configuration_frame:
  "configuration (snd (read_configuration w s)) =
     (case files w (if length (argv w) > 1 then argv w ! 1 else config_file_name s) of
        Inl e \<Rightarrow> configuration s
      | Inr c \<Rightarrow> c)"
proof (cases "length (argv w) > 1")
  case True
  then show ?thesis
    by (cases "files w (argv w ! 1)") (simp_all add: read_configuration_def prog_defs)
next
  case False
  then show ?thesis
    by (cases "files w (config_file_name s)") (simp_all add: read_configuration_def prog_defs)
qed

lemma set_static_components_result:
  assumes "fst (get_ip (probe w)) = Inr ip"
    and "configuration s = JObj c"
    and "map_of c ''brokerAddress'' = Some address"
    and "map_of c ''brokerPort'' = Some port"
  shows "\<exists>s'. set_static_components w s = (Inr (), s') \<and>
     configuration s' = configuration s \<and> calls s' = calls s \<and>
     last_publish s' = last_publish s \<and>
     map_of (telemetry s') ''ipAddress'' = Some (JStr ip) \<and>
     map_of (telemetry s') ''host'' = Some (JStr (hostname w)) \<and>
     map_of (telemetry s') ''brokerAddress'' = Some address \<and>
     map_of (telemetry s') ''brokerPort'' = Some port \<and>
     map_of (telemetry s') ''macAddress'' = map_of (telemetry s) ''macAddress''"
proof (cases "map_of c ''notes''")
  case None
  with assms show ?thesis
    by (simp add: set_static_components_def prog_defs set_telemetry_def update_conv')
next
  case (Some v)
  with assms show ?thesis
    by (simp add: set_static_components_def prog_defs set_telemetry_def update_conv')
qed

lemma print_settings_result:
  assumes "map_of (telemetry s) ''ipAddress'' = Some (JStr ip)"
    and "configuration s = JObj c"
    and "map_of c ''brokerAddress'' = Some (JStr address)"
    and "map_of c ''brokerPort'' = Some (JStr port)"
    and "map_of c ''publishTopic'' = Some (JStr ptopic)"
    and "map_of c ''controlTopic'' = Some (JStr ctopic)"
    and "map_of c ''brokerQoS'' = Some qos"
    and "map_of c ''publishInterval'' = Some interval"
  shows "\<exists>s'. print_settings w s = (Inr (), s') \<and>
     configuration s' = configuration s \<and> calls s' = calls s \<and>
     last_publish s' = last_publish s \<and> telemetry s' = telemetry s"
  using assms by (simp add: print_settings_def prog_defs)

lemma connect_and_subscribe_result:
  assumes "configuration s = JObj c"
    and "map_of c ''brokerAddress'' = Some address"
    and "map_of c ''brokerPort'' = Some port"
    and "py_int (int_of_str w) port = Inr n"
    and "map_of c ''controlTopic'' = Some (JStr ctopic)"
    and "map_of c ''brokerQoS'' = Some qos"
    and "connect_raises w = None"
    and "subscribe_raises w = None"
    and "loop_start_raises w = None"
  shows "\<exists>s'. connect_and_subscribe w s = (Inr (), s') \<and>
     configuration s' = configuration s \<and> last_publish s' = last_publish s \<and>
     telemetry s' = telemetry s \<and>
     calls s' = calls s @ [Connect address n, Subscribe (JStr ctopic) qos, LoopStart]"
  using assms by (simp add: connect_and_subscribe_def prog_defs)

lemma main_try_closes:
  assumes "main_try w s = (x, s')"
  shows "closes_begun s' \<le> closes_begun s + 1 \<and>
         closes_ended s' - closes_ended s \<le> closes_begun s' - closes_begun s \<and>
         closes_ended s \<le> closes_ended s' \<and> closes_begun s \<le> closes_begun s' \<and>
         (x = Inr Break \<longrightarrow>
            closes_begun s' = closes_begun s + 1 \<and> closes_ended s' = closes_ended s + 1) \<and>
         (x = Inr Continue \<longrightarrow> closes_begun s' = closes_begun s)"
proof (cases "startup w s")
  case (Pair y s1)
  have s1: "closes_begun s1 = closes_begun s" "closes_ended s1 = closes_ended s"
    using startup_closes [of "closes_begun s" "closes_ended s" w] Pair
    by (auto dest: invariantD)
  show ?thesis
  proof (cases y)
    case (Inl e)
    with Pair assms s1 show ?thesis by (auto simp add: main_try_def and_then_def)
  next
    case (Inr u)
    with Pair assms have "main_loop (events w) s1 = (x, s')"
      by (simp add: main_try_def and_then_def)
    from main_loop_added [OF this] s1 show ?thesis
      by (auto simp add: closes_begun_def closes_ended_def)
  qed
qed

lemma handler_close:
  "snd (and_then (print t) (\<lambda>_. and_then (close_mqtt k) (\<lambda>_. ret Returned)) s) =
     snd (close_mqtt k (s\<lparr>stdout := stdout s @ [t]\<rparr>))"
  by (simp add: and_then_def print_def ret_def split: prod.splits sum.splits)

lemma main_state:
  assumes "main_try w s = (x, s1)"
  shows "snd (main w s) =
     (case x of
        Inr f \<Rightarrow> s1
      | Inl e \<Rightarrow>
          if e = KeyboardInterrupt then
            snd (close_mqtt (handler_closing w)
                   (s1\<lparr>stdout := stdout s1 @
                      [[Lit (nl @ ''Keyboard interrupt detected, exiting...'' @ nl)]]\<rparr>))
          else if is_KeyError e then
            s1\<lparr>stdout := stdout s1 @ [[Lit ''Python dictionary key error: '', StrExc e]]\<rparr>
          else if e = ConnectionRefusedError then
            s1\<lparr>stdout := stdout s1 @ [[Lit ''Connection error: '', StrExc e]]\<rparr>
          else if e = TimeoutError then
            snd (close_mqtt (handler_closing w)
                   (s1\<lparr>stdout := stdout s1 @
                      [[Lit ''Timeout encountered while connecting to the MQTT broker!'']]\<rparr>))
          else s1)"
proof (cases x)
  case (Inr f)
  with assms show ?thesis by (cases f) (simp_all add: main_def)
next
  case (Inl e)
  with assms show ?thesis
    by (simp add: main_def handler_close) (simp add: and_then_def print_def ret_def)
qed

lemma main_after_startup:
  "configuration (snd (main w s)) = configuration (snd (startup w s)) \<and>
   (\<exists>added. calls (snd (main w s)) = calls (snd (startup w s)) @ added \<and>
             \<not> list_ex is_Subscribe added)"
proof (cases "startup w s")
  case (Pair y s1)
  obtain x s2 where tried: "main_try w s = (x, s2)"
    by (cases "main_try w s")
  have "configuration s2 = configuration s1 \<and>
        (\<exists>added. calls s2 = calls s1 @ added \<and> \<not> list_ex is_Subscribe added)"
  proof (cases y)
    case (Inl e)
    with Pair tried show ?thesis by (auto simp add: main_try_def and_then_def)
  next
    case (Inr u)
    with Pair tried have "main_loop (events w) s1 = (x, s2)"
      by (simp add: main_try_def and_then_def)
    from main_loop_frame [OF this] main_loop_added [OF this] show ?thesis by auto
  qed
  then obtain a1 where s2: "configuration s2 = configuration s1"
    "calls s2 = calls s1 @ a1" "\<not> list_ex is_Subscribe a1"
    by blast
  have closing: "configuration (snd (close_mqtt k (s2\<lparr>stdout := out\<rparr>))) = configuration s2 \<and>
      (\<exists>added. calls (snd (close_mqtt k (s2\<lparr>stdout := out\<rparr>))) = calls s2 @ added \<and>
               \<not> list_ex is_Subscribe added)" for k out
  proof -
    obtain z s3 where c: "close_mqtt k (s2\<lparr>stdout := out\<rparr>) = (z, s3)"
      by (cases "close_mqtt k (s2\<lparr>stdout := out\<rparr>)")
    from close_mqtt_frame [OF c] close_mqtt_added [OF c] c show ?thesis
      by auto
  qed
  have "configuration (snd (main w s)) = configuration s2 \<and>
        (\<exists>added. calls (snd (main w s)) = calls s2 @ added \<and> \<not> list_ex is_Subscribe added)"
    unfolding main_state [OF tried]
    using closing by (cases x) auto
  then obtain a2 where "configuration (snd (main w s)) = configuration s2"
    "calls (snd (main w s)) = calls s2 @ a2" "\<not> list_ex is_Subscribe a2"
    by blast
  with s2 Pair show ?thesis
    by (intro conjI exI [of _ "a1 @ a2"]) simp_all
qed

subsection \<open>The message callback\<close>

lemma change_interval_integer:
  assumes "py_getitem (configuration s) ''publishInterval'' = Inr (JInt current)"
    and "map_of m ''command'' = Some (JStr ''changeTelemetryInterval'')"
    and "map_of m ''value'' = Some (JInt v)"
  shows "on_message (Inr (JObj m)) r s =
           (if v \<noteq> current \<and> v > 4 then Inl TypeError else Inr (),
            s\<lparr>stdout := stdout s @
                 [[Dumps (JObj m) IndentTab],
                  [Lit (''Processing command '' @ dq @ ''changeTelemetryInterval'' @ dq)]] @
                 (if v \<noteq> current \<and> v > 4 then []
                  else [[Lit ''Not changing the telemetry publish interval.'']])\<rparr>)"
  using assms by (simp add: on_message_def prog_defs py_ne_def)

lemma on_message_configuration:
  "configuration (snd (on_message decoded r s)) = configuration s \<or>
   (\<exists>m c old_value new_value.
      decoded = Inr (JObj m) \<and>
      map_of m ''command'' = Some (JStr ''changeTelemetryInterval'') \<and>
      map_of m ''value'' = Some new_value \<and>
      configuration s = JObj c \<and>
      map_of c ''publishInterval'' = Some old_value \<and>
      py_ne old_value new_value \<and> py_gt_int new_value 4 = Inr True \<and>
      configuration (snd (on_message decoded r s)) =
        JObj (AList.update ''publishInterval'' new_value c))"
proof (cases decoded)
  case (Inl e)
  then show ?thesis by (simp add: on_message_def prog_defs)
next
  case (Inr message)
  show ?thesis
  proof (cases "py_contains ''command'' message = Inr True")
    case False
    then show ?thesis using Inr
      by (cases "py_contains ''command'' message") (auto simp add: on_message_def prog_defs)
  next
    case True
    show ?thesis
    proof (cases "py_getitem message ''command''")
      case (Inl e)
      then show ?thesis using Inr True by (simp add: on_message_def prog_defs)
    next
      case got: (Inr command)
      then obtain m where m: "message = JObj m" "map_of m ''command'' = Some command"
        by (cases message) (auto split: option.splits)
      let ?s0 = "s\<lparr>stdout := stdout s @
        [[Dumps (JObj m) IndentTab], [Lit (''Processing command '' @ dq @ ''publishTelemetry'' @ dq)]]\<rparr>"
      let ?s1 = "s\<lparr>stdout := stdout s @
        [[Dumps (JObj m) IndentTab], [Lit (''Processing command '' @ dq @ ''publishStatus'' @ dq)]]\<rparr>"
      show ?thesis
      proof (cases command)
        case (JStr c)
        consider "c = ''publishTelemetry''" | "c = ''changeTelemetryInterval''"
          | "c = ''publishStatus''" | "c = ''debug''"
          | "c \<noteq> ''publishTelemetry''" "c \<noteq> ''changeTelemetryInterval''"
            "c \<noteq> ''publishStatus''" "c \<noteq> ''debug''"
          by blast
        then show ?thesis
        proof cases
          case 1
          obtain x s1 where p: "publish_telemetry r (snd (poll_telemetry r ?s0)) = (x, s1)"
            by (cases "publish_telemetry r (snd (poll_telemetry r ?s0))")
          from publish_telemetry_frame [OF p] have "configuration s1 = configuration s"
            by (simp add: poll_telemetry_result)
          with 1 Inr m JStr p show ?thesis
            by (cases x) (simp_all add: on_message_def prog_defs poll_telemetry_result)
        next
          case 2
          with Inr m JStr show ?thesis
            by (cases "configuration s")
               (auto simp add: on_message_def prog_defs split: sum.splits option.splits if_splits)
        next
          case 3
          obtain x s1 where p: "publish_telemetry r ?s1 = (x, s1)"
            by (cases "publish_telemetry r ?s1")
          from publish_telemetry_frame [OF p] have "configuration s1 = configuration s"
            by simp
          with 3 Inr m JStr p show ?thesis
            by (simp add: on_message_def prog_defs)
        next
          case 4
          with Inr m JStr show ?thesis by (simp add: on_message_def prog_defs)
        next
          case 5
          with Inr m JStr show ?thesis by (simp add: on_message_def prog_defs)
        qed
      qed (use Inr m in \<open>simp_all add: on_message_def prog_defs\<close>)
    qed
  qed
qed

section \<open>The claims\<close>

text \<open>
  C1, which the code does not meet. With the publish interval an integer, as the loop needs
  it, a \<^verbatim>\<open>changeTelemetryInterval\<close> command whose integer value is above 4 and differs
  from the interval should store the value. The callback instead raises \<^verbatim>\<open>TypeError\<close>
  at \<^verbatim>\<open>print("Old publish interval: " + old_value)\<close>, a string plus an integer, one line
  before the assignment: with interval 5 and value 10 the interval is still 5 afterwards.
\<close>

theorem change_interval_raises:
  "on_message
     (Inr (JObj [(''command'', JStr ''changeTelemetryInterval''), (''value'', JInt 10)]))
     example_readings example_state =
   (Inl TypeError,
    example_state\<lparr>stdout :=
      [[Dumps (JObj [(''command'', JStr ''changeTelemetryInterval''), (''value'', JInt 10)])
          IndentTab],
       [Lit (''Processing command '' @ dq @ ''changeTelemetryInterval'' @ dq)]]\<rparr>) \<and>
   py_getitem (configuration example_state) ''publishInterval'' = Inr (JInt 5)"
  using change_interval_integer [of example_state 5
      "[(''command'', JStr ''changeTelemetryInterval''), (''value'', JInt 10)]" 10
      example_readings]
  by (simp add: example_state_def example_configuration_def)

text \<open>
  C2, as amended. A payload that cannot be decoded, or that decodes to anything but an
  object with a \<^verbatim>\<open>command\<close> key, changes nothing but the printed output: configuration,
  \<open>last_publish\<close> and telemetry stay as they are and no client call is made, so nothing
  is published. When the payload cannot be decoded the decoding error leaves the callback,
  which catches nothing, and nothing is printed. Otherwise the decoded message is printed
  first. The callback then prints that the message did not contain a command property and
  returns, when the message is an object, a list or a string without \<^verbatim>\<open>command\<close> in it;
  it raises \<^verbatim>\<open>TypeError\<close> without printing more when the message is a number, a boolean
  or \<^verbatim>\<open>null\<close>, or a list or a string that contains \<^verbatim>\<open>command\<close>.
\<close>

theorem malformed_payload_dropped:
  assumes "case decoded of
             Inl e \<Rightarrow> True
           | Inr (JObj m) \<Rightarrow> map_of m ''command'' = None
           | Inr _ \<Rightarrow> True"
  shows "on_message decoded r s =
           (case decoded of
              Inl e \<Rightarrow> (Inl e, s)
            | Inr message \<Rightarrow>
                (case py_contains ''command'' message of
                   Inl e \<Rightarrow> (Inl e, s\<lparr>stdout := stdout s @ [[Dumps message IndentTab]]\<rparr>)
                 | Inr has_command \<Rightarrow>
                     if has_command
                     then (Inl TypeError, s\<lparr>stdout := stdout s @ [[Dumps message IndentTab]]\<rparr>)
                     else (Inr (), s\<lparr>stdout := stdout s @
                             [[Dumps message IndentTab],
                              [Lit ''Message did not contain a command property.'']]\<rparr>)))"
proof (cases decoded)
  case (Inl e)
  then show ?thesis
    by (simp add: on_message_def prog_defs)
next
  case (Inr message)
  with assms show ?thesis
    by (cases message)
       (auto simp add: on_message_def prog_defs split: sum.splits)
qed

theorem malformed_payload_dropped_witness:
  "on_message (Inr (JObj [(''value'', JInt 10)])) example_readings example_state =
     (Inr (), example_state\<lparr>stdout :=
        [[Dumps (JObj [(''value'', JInt 10)]) IndentTab],
         [Lit ''Message did not contain a command property.'']]\<rparr>)"
  using malformed_payload_dropped [of "Inr (JObj [(''value'', JInt 10)])"
      example_readings example_state]
  by (simp add: example_state_def)

theorem undecodable_payload_counterexample:
  "fst (on_message (Inl JSONDecodeError) example_readings example_state) = Inl JSONDecodeError"
  by (simp add: on_message_def prog_defs)

text \<open>
  C3. Let the publish interval be the integer \<open>N\<close> and \<open>last_publish\<close> be \<open>T\<close>, with
  a publish topic and a quality of service configured. Passes of the loop whose
  \<^verbatim>\<open>current_time\<close> is at most \<open>T + N\<close> publish nothing and leave \<open>last_publish\<close> and the
  telemetry alone; the first pass whose \<^verbatim>\<open>current_time\<close> exceeds \<open>T + N\<close> publishes
  exactly once, after storing the sensor reading under \<^verbatim>\<open>cpuTemp\<close>, and sets
  \<open>last_publish\<close> to the time read right after the publish. In each pass the client is
  connected or reconnects without raising, and the publish of the due pass is one that
  \<^verbatim>\<open>client.publish\<close> accepts: it does not raise.
\<close>

theorem scheduled_publish_cadence:
  assumes interval: "py_getitem (configuration s) ''publishInterval'' = Inr (JInt N)"
    and topic: "py_getitem (configuration s) ''publishTopic'' = Inr (JStr topic)"
    and qos: "py_getitem (configuration s) ''brokerQoS'' = Inr qos"
    and last: "last_publish s = T"
    and early: "\<forall>t \<in> set early. (connected t \<or> reconnected t = None) \<and> current_time t \<le> T + N"
    and first: "connected t \<or> reconnected t = None" "current_time t > T + N"
    and accepted: "publish_raises (published t) = None"
  shows "\<exists>s1 s2.
           main_loop (map Pass early) s = (Inr Continue, s1) \<and>
           filter is_Publish (calls s1) = filter is_Publish (calls s) \<and>
           last_publish s1 = T \<and> telemetry s1 = telemetry s \<and>
           main_loop (map Pass (early @ [t])) s = (Inr Continue, s2) \<and>
           filter is_Publish (calls s2) =
             filter is_Publish (calls s) @
               [Publish (JStr topic) [Dumps (JObj (telemetry s2)) IndentTab] qos] \<and>
           last_publish s2 = epoch (published t) \<and>
           telemetry s2 =
             AList.update ''timeStamp'' (JStr (timestamp (published t)))
               (AList.update ''cpuTemp'' (temperature (published t)) (telemetry s))"
proof -
  from main_loop_early [OF interval, of early] early last
  obtain s1 where s1: "main_loop (map Pass early) s = (Inr Continue, s1)"
    and c1: "configuration s1 = configuration s" and l1: "last_publish s1 = T"
    and t1: "telemetry s1 = telemetry s"
    and p1: "filter is_Publish (calls s1) = filter is_Publish (calls s)"
    by auto
  from loop_body_due [of s1 N topic qos t] interval topic qos first accepted c1 l1
  obtain s2 where s2: "loop_body t s1 = (Inr Continue, s2)"
    and l2: "last_publish s2 = epoch (published t)"
    and t2: "telemetry s2 = AList.update ''timeStamp'' (JStr (timestamp (published t)))
                            (AList.update ''cpuTemp'' (temperature (published t)) (telemetry s1))"
    and k2: "calls s2 = calls s1 @ (if connected t then [] else [Reconnect]) @
                        [Publish (JStr topic) [Dumps (JObj (telemetry s2)) IndentTab] qos]"
    by auto
  have "main_loop (map Pass (early @ [t])) s = (Inr Continue, s2)"
    using s1 s2 by (simp add: main_loop_append)
  moreover have "filter is_Publish (calls s2) =
      filter is_Publish (calls s) @ [Publish (JStr topic) [Dumps (JObj (telemetry s2)) IndentTab] qos]"
    using k2 p1 by simp
  ultimately show ?thesis
    using s1 p1 l1 t1 l2 t2 by simp
qed

theorem scheduled_publish_cadence_witness:
  "\<exists>s1 s2.
     main_loop (map Pass [example_tick True None 104, example_tick False None 105]) example_state
       = (Inr Continue, s1) \<and>
     filter is_Publish (calls s1) = [] \<and>
     last_publish s1 = 100 \<and>
     main_loop (map Pass ([example_tick True None 104, example_tick False None 105] @
                          [example_tick True None 106])) example_state
       = (Inr Continue, s2) \<and>
     filter is_Publish (calls s2) =
       [Publish (JStr ''stats/cpu'') [Dumps (JObj (telemetry s2)) IndentTab] (JInt 1)] \<and>
     last_publish s2 = 200 \<and>
     map_of (telemetry s2) ''cpuTemp'' = Some (JInt 42)"
proof -
  have "\<exists>s1 s2.
     main_loop (map Pass [example_tick True None 104, example_tick False None 105]) example_state
       = (Inr Continue, s1) \<and>
     filter is_Publish (calls s1) = filter is_Publish (calls example_state) \<and>
     last_publish s1 = 100 \<and> telemetry s1 = telemetry example_state \<and>
     main_loop (map Pass ([example_tick True None 104, example_tick False None 105] @
                          [example_tick True None 106])) example_state
       = (Inr Continue, s2) \<and>
     filter is_Publish (calls s2) =
       filter is_Publish (calls example_state) @
         [Publish (JStr ''stats/cpu'') [Dumps (JObj (telemetry s2)) IndentTab] (JInt 1)] \<and>
     last_publish s2 = epoch (published (example_tick True None 106)) \<and>
     telemetry s2 =
       AList.update ''timeStamp'' (JStr (timestamp (published (example_tick True None 106))))
         (AList.update ''cpuTemp'' (temperature (published (example_tick True None 106)))
            (telemetry example_state))"
    by (rule scheduled_publish_cadence [where N = 5])
       (simp_all add: example_state_def example_configuration_def example_tick_def
          example_readings_def)
  then obtain s1 s2 where
    "main_loop (map Pass [example_tick True None 104, example_tick False None 105]) example_state
       = (Inr Continue, s1)"
    "filter is_Publish (calls s1) = filter is_Publish (calls example_state)"
    "last_publish s1 = 100"
    "main_loop (map Pass ([example_tick True None 104, example_tick False None 105] @
                          [example_tick True None 106])) example_state
       = (Inr Continue, s2)"
    "filter is_Publish (calls s2) =
       filter is_Publish (calls example_state) @
         [Publish (JStr ''stats/cpu'') [Dumps (JObj (telemetry s2)) IndentTab] (JInt 1)]"
    "last_publish s2 = epoch (published (example_tick True None 106))"
    "telemetry s2 =
       AList.update ''timeStamp'' (JStr (timestamp (published (example_tick True None 106))))
         (AList.update ''cpuTemp'' (temperature (published (example_tick True None 106)))
            (telemetry example_state))"
    by blast
  moreover have "calls example_state = []"
    by (simp add: example_state_def)
  moreover have "epoch (published (example_tick True None 106)) = 200"
    "temperature (published (example_tick True None 106)) = JInt 42"
    by (simp_all add: example_tick_def example_readings_def)
  ultimately show ?thesis
    by (intro exI [of _ s1] exI [of _ s2]) (simp add: update_conv')
qed

text \<open>
  C4, as amended. Let the configuration file hold an object whose \<^verbatim>\<open>brokerAddress\<close>,
  \<^verbatim>\<open>publishTopic\<close> and \<^verbatim>\<open>controlTopic\<close> are strings, whose \<^verbatim>\<open>brokerPort\<close> is a string
  that \<^verbatim>\<open>int\<close> accepts, whose \<^verbatim>\<open>brokerQoS\<close> is an integer from 0 to 2 and whose
  \<^verbatim>\<open>publishInterval\<close> is an integer above 4; let the probe of \<^verbatim>\<open>get_ip\<close> return or raise
  an \<^verbatim>\<open>OSError\<close>, and let \<^verbatim>\<open>client.connect\<close>, \<^verbatim>\<open>client.subscribe\<close> and
  \<^verbatim>\<open>client.loop_start\<close> return, the broker being reachable and the control topic one that
  the library accepts. Then the
  start runs to its end without raising: the telemetry holds the MAC address, the IP
  address, the host name, the broker address and the broker port, and the client was asked
  to connect, then to subscribe to the control topic, then to start its loop, in this
  order.
\<close>

theorem startup_completes:
  assumes load: "files w (if length (argv w) > 1 then argv w ! 1 else ''config.json'') = Inr (JObj c)"
    and address: "map_of c ''brokerAddress'' = Some (JStr address)"
    and port: "map_of c ''brokerPort'' = Some (JStr port)" "int_of_str w port = Some n"
    and qos: "map_of c ''brokerQoS'' = Some (JInt qos)" "0 \<le> qos" "qos \<le> 2"
    and ptopic: "map_of c ''publishTopic'' = Some (JStr ptopic)"
    and ctopic: "map_of c ''controlTopic'' = Some (JStr ctopic)"
    and interval: "map_of c ''publishInterval'' = Some (JInt interval)" "interval > 4"
    and connect: "connect_raises w = None"
    and subscribe: "subscribe_raises w = None"
    and loop_start: "loop_start_raises w = None"
    and ip: "case probe w of Inr a \<Rightarrow> ip = a | Inl e \<Rightarrow> is_OSError e \<and> ip = ''127.0.0.1''"
  shows "\<exists>s'. startup w (module_state node) = (Inr (), s') \<and>
           calls s' = [Connect (JStr address) n, Subscribe (JStr ctopic) (JInt qos), LoopStart] \<and>
           configuration s' = JObj c \<and>
           last_publish s' = 0 \<and>
           map_of (telemetry s') ''macAddress'' = Some (JStr (mac_address node)) \<and>
           map_of (telemetry s') ''ipAddress'' = Some (JStr ip) \<and>
           map_of (telemetry s') ''host'' = Some (JStr (hostname w)) \<and>
           map_of (telemetry s') ''brokerAddress'' = Some (JStr address) \<and>
           map_of (telemetry s') ''brokerPort'' = Some (JStr port)"
proof -
  have got: "fst (get_ip (probe w)) = Inr ip"
    using ip by (auto simp add: get_ip_def split: sum.splits)
  let ?s0 = "module_state node"
  have name: "config_file_name ?s0 = ''config.json''"
    by (simp add: module_state_def)
  from read_configuration_result [of w ?s0 "JObj c"] load
  obtain s1 where s1: "read_configuration w ?s0 = (Inr (), s1)"
    and c1: "configuration s1 = JObj c" and t1: "telemetry s1 = telemetry ?s0"
    and k1: "calls s1 = calls ?s0" and l1: "last_publish s1 = last_publish ?s0"
    unfolding name by blast
  from set_static_components_result [OF got c1 address port(1)]
  obtain s2 where s2: "set_static_components w s1 = (Inr (), s2)"
    and c2: "configuration s2 = configuration s1" and k2: "calls s2 = calls s1"
    and l2: "last_publish s2 = last_publish s1"
    and t2: "map_of (telemetry s2) ''ipAddress'' = Some (JStr ip)"
      "map_of (telemetry s2) ''host'' = Some (JStr (hostname w))"
      "map_of (telemetry s2) ''brokerAddress'' = Some (JStr address)"
      "map_of (telemetry s2) ''brokerPort'' = Some (JStr port)"
      "map_of (telemetry s2) ''macAddress'' = map_of (telemetry s1) ''macAddress''"
    by blast
  from c1 c2 have c2': "configuration s2 = JObj c" by simp
  from print_settings_result [OF t2(1) c2' address port(1) ptopic ctopic qos(1) interval(1)]
  obtain s3 where s3: "print_settings w s2 = (Inr (), s3)"
    and c3: "configuration s3 = configuration s2" and k3: "calls s3 = calls s2"
    and l3: "last_publish s3 = last_publish s2" and t3: "telemetry s3 = telemetry s2"
    by blast
  from c2' c3 have c3': "configuration s3 = JObj c" by simp
  have "py_int (int_of_str w) (JStr port) = Inr n" using port(2) by simp
  from connect_and_subscribe_result [OF c3' address port(1) this ctopic qos(1) connect subscribe loop_start]
  obtain s4 where s4: "connect_and_subscribe w s3 = (Inr (), s4)"
    and c4: "configuration s4 = configuration s3" and l4: "last_publish s4 = last_publish s3"
    and t4: "telemetry s4 = telemetry s3"
    and k4: "calls s4 = calls s3 @
               [Connect (JStr address) n, Subscribe (JStr ctopic) (JInt qos), LoopStart]"
    by blast
  have "startup w ?s0 = (Inr (), s4)"
    using s1 s2 s3 s4 by (simp add: startup_def and_then_def)
  moreover have "map_of (telemetry ?s0) ''macAddress'' = Some (JStr (mac_address node))"
    "calls ?s0 = []" "last_publish ?s0 = 0"
    by (simp_all add: module_state_def)
  ultimately show ?thesis
    using c1 c2 c3 c4 t1 t2 t3 t4 k1 k2 k3 k4 l1 l2 l3 l4 by simp
qed

theorem startup_completes_witness:
  "\<exists>s'. startup example_world (module_state 0) = (Inr (), s') \<and>
         calls s' = [Connect (JStr ''broker.local'') 1883,
                     Subscribe (JStr ''stats/control'') (JInt 1), LoopStart] \<and>
         configuration s' = example_configuration \<and>
         last_publish s' = 0 \<and>
         map_of (telemetry s') ''macAddress'' = Some (JStr (mac_address 0)) \<and>
         map_of (telemetry s') ''ipAddress'' = Some (JStr ''192.168.1.20'') \<and>
         map_of (telemetry s') ''host'' = Some (JStr ''raspberrypi'') \<and>
         map_of (telemetry s') ''brokerAddress'' = Some (JStr ''broker.local'') \<and>
         map_of (telemetry s') ''brokerPort'' = Some (JStr ''1883'')"
proof -
  have host: "hostname example_world = ''raspberrypi''"
    by (simp add: example_world_def)
  have "\<exists>s'. startup example_world (module_state 0) = (Inr (), s') \<and>
         calls s' = [Connect (JStr ''broker.local'') 1883,
                     Subscribe (JStr ''stats/control'') (JInt 1), LoopStart] \<and>
         configuration s' =
           JObj [(''brokerAddress'', JStr ''broker.local''),
                 (''brokerPort'', JStr ''1883''),
                 (''brokerQoS'', JInt 1),
                 (''publishTopic'', JStr ''stats/cpu''),
                 (''controlTopic'', JStr ''stats/control''),
                 (''publishInterval'', JInt 5)] \<and>
         last_publish s' = 0 \<and>
         map_of (telemetry s') ''macAddress'' = Some (JStr (mac_address 0)) \<and>
         map_of (telemetry s') ''ipAddress'' = Some (JStr ''192.168.1.20'') \<and>
         map_of (telemetry s') ''host'' = Some (JStr (hostname example_world)) \<and>
         map_of (telemetry s') ''brokerAddress'' = Some (JStr ''broker.local'') \<and>
         map_of (telemetry s') ''brokerPort'' = Some (JStr ''1883'')"
    by (rule startup_completes [where qos = 1 and interval = 5 and ptopic = "''stats/cpu''"])
       (simp_all add: example_world_def example_configuration_def)
  then show ?thesis
    unfolding host example_configuration_def .
qed

text \<open>
  The claim as it was written fails on this input: with the broker port an integer, as the
  interface section of the specification has it, \<^verbatim>\<open>"Using broker port: " + 1883\<close> raises
  \<^verbatim>\<open>TypeError\<close> before the client is asked to connect, and no handler of \<^verbatim>\<open>main\<close> takes it.
\<close>

theorem integer_port_counterexample:
  "fst (main (example_world\<lparr>files := \<lambda>name. Inr integer_port_configuration\<rparr>) (module_state 0))
     = Inl TypeError"
  by code_simp

text \<open>
  C5, as amended. \<^verbatim>\<open>close_mqtt\<close> is begun when its first call, \<^verbatim>\<open>client.unsubscribe\<close>,
  is made, and has got to its end when its last, \<^verbatim>\<open>client.disconnect\<close>, is made. In a run
  of \<^verbatim>\<open>main\<close> from the module's initial state:
  \<^item> the \<^verbatim>\<open>try\<close> block begins the close at most once: once, running it to its end, when
    the loop is left by \<^verbatim>\<open>break\<close> after a reconnect timeout, and not at all while the loop
    runs;
  \<^item> when an exception leaves the \<^verbatim>\<open>try\<close> block, the handlers begin the close once more if
    the exception is \<^verbatim>\<open>KeyboardInterrupt\<close> or \<^verbatim>\<open>TimeoutError\<close> and the configuration holds
    the control topic, and it gets to its end if none of its three calls raises; the
    handlers do not close after \<^verbatim>\<open>KeyError\<close> or \<^verbatim>\<open>ConnectionRefusedError\<close>, and an exception
    of another kind leaves \<^verbatim>\<open>main\<close> with no close.
  So the close is begun once on the exit by \<^verbatim>\<open>break\<close>, and once on a keyboard interrupt
  and on a connect timeout that arrive outside the close of line 177; never on the other
  exits on which that close had not begun; and twice when \<^verbatim>\<open>KeyboardInterrupt\<close> or
  \<^verbatim>\<open>TimeoutError\<close> is raised inside the close of line 177, which follows a reconnect
  timeout.
\<close>

theorem close_once_or_never:
  "closes_begun (snd (main w (module_state node))) =
     closes_begun (snd (main_try w (module_state node))) +
     (case main_try w (module_state node) of
        (Inr f, s1) \<Rightarrow> 0
      | (Inl e, s1) \<Rightarrow>
          if (e = KeyboardInterrupt \<or> e = TimeoutError) \<and>
             \<not> isl (py_getitem (configuration s1) ''controlTopic'')
          then 1 else 0) \<and>
   closes_begun (snd (main_try w (module_state node))) \<le> 1 \<and>
   (fst (main_try w (module_state node)) = Inr Break \<longrightarrow>
      closes_begun (snd (main_try w (module_state node))) = 1 \<and>
      closes_ended (snd (main_try w (module_state node))) = 1) \<and>
   (fst (main_try w (module_state node)) = Inr Continue \<longrightarrow>
      closes_begun (snd (main_try w (module_state node))) = 0) \<and>
   closes_ended (snd (main w (module_state node))) \<le>
     closes_begun (snd (main w (module_state node))) \<and>
   ((fst (main_try w (module_state node)) = Inl KeyboardInterrupt \<or>
     fst (main_try w (module_state node)) = Inl TimeoutError) \<and>
    \<not> isl (py_getitem (configuration (snd (main_try w (module_state node)))) ''controlTopic'') \<and>
    unsubscribe_raises (handler_closing w) = None \<and>
    loop_stop_raises (handler_closing w) = None \<and>
    disconnect_raises (handler_closing w) = None \<longrightarrow>
      closes_ended (snd (main w (module_state node))) =
        closes_ended (snd (main_try w (module_state node))) + 1)"
proof -
  let ?s0 = "module_state node"
  obtain x s1 where tried: "main_try w ?s0 = (x, s1)"
    by (cases "main_try w ?s0")
  have "closes_begun ?s0 = 0" "closes_ended ?s0 = 0"
    by (simp_all add: closes_begun_def closes_ended_def module_state_def)
  with main_try_closes [OF tried]
  have loop: "closes_begun s1 \<le> 1" "closes_ended s1 \<le> closes_begun s1"
    "x = Inr Break \<longrightarrow> closes_begun s1 = 1 \<and> closes_ended s1 = 1"
    "x = Inr Continue \<longrightarrow> closes_begun s1 = 0"
    by auto
  have handler:
    "closes_begun (snd (close_mqtt k (s1\<lparr>stdout := out\<rparr>))) =
       closes_begun s1 + (if isl (py_getitem (configuration s1) ''controlTopic'') then 0 else 1) \<and>
     closes_ended (snd (close_mqtt k (s1\<lparr>stdout := out\<rparr>))) \<le>
       closes_begun (snd (close_mqtt k (s1\<lparr>stdout := out\<rparr>))) \<and>
     (\<not> isl (py_getitem (configuration s1) ''controlTopic'') \<and>
      unsubscribe_raises k = None \<and> loop_stop_raises k = None \<and> disconnect_raises k = None \<longrightarrow>
        closes_ended (snd (close_mqtt k (s1\<lparr>stdout := out\<rparr>))) = closes_ended s1 + 1)"
    for k out
  proof -
    obtain z s3 where c: "close_mqtt k (s1\<lparr>stdout := out\<rparr>) = (z, s3)"
      by (cases "close_mqtt k (s1\<lparr>stdout := out\<rparr>)")
    from close_mqtt_added [OF c] loop(2) c
    have "closes_begun s3 =
        closes_begun s1 + (if isl (py_getitem (configuration s1) ''controlTopic'') then 0 else 1) \<and>
      closes_ended s3 \<le> closes_begun s3"
      by (auto simp add: closes_begun_def closes_ended_def)
    moreover have "closes_ended s3 = closes_ended s1 + 1"
      if "\<not> isl (py_getitem (configuration s1) ''controlTopic'')"
        "unsubscribe_raises k = None" "loop_stop_raises k = None" "disconnect_raises k = None"
    proof -
      from that(1) obtain topic where "py_getitem (configuration s1) ''controlTopic'' = Inr topic"
        by (cases "py_getitem (configuration s1) ''controlTopic''") auto
      then have "py_getitem (configuration (s1\<lparr>stdout := out\<rparr>)) ''controlTopic'' = Inr topic"
        by simp
      from close_mqtt_returns [OF this that(2-4)] c show ?thesis
        by (auto simp add: closes_ended_def)
    qed
    ultimately show ?thesis using c by simp
  qed
  show ?thesis
  proof (cases x)
    case (Inr f)
    with tried loop main_state [OF tried] show ?thesis
      by (cases f) simp_all
  next
    case (Inl e)
    consider "e = KeyboardInterrupt" | "e = TimeoutError"
      | "e \<noteq> KeyboardInterrupt" "e \<noteq> TimeoutError"
      by blast
    then show ?thesis
    proof cases
      case 1
      with tried Inl loop main_state [OF tried]
        handler [of "handler_closing w" "stdout s1 @
           [[Lit (nl @ ''Keyboard interrupt detected, exiting...'' @ nl)]]"]
      show ?thesis by simp
    next
      case 2
      with tried Inl loop main_state [OF tried]
        handler [of "handler_closing w" "stdout s1 @
           [[Lit ''Timeout encountered while connecting to the MQTT broker!'']]"]
      show ?thesis by simp
    next
      case 3
      with tried Inl loop main_state [OF tried] show ?thesis
        by (simp add: closes_begun_def closes_ended_def)
    qed
  qed
qed

text \<open>
  Three runs: the loop still running, a reconnect timeout whose close returns, and one
  whose close is interrupted in \<^verbatim>\<open>client.unsubscribe\<close>, so that the handler closes
  again.
\<close>

lemma still_running_run:
  "case main_try example_world (module_state 0) of (x, s') \<Rightarrow> x = Inr Continue"
  by code_simp

lemma reconnect_timeout_run:
  "case main_try (example_world\<lparr>events := [Pass (example_tick False (Some TimeoutError) 0)]\<rparr>)
          (module_state 0) of
     (x, s') \<Rightarrow> x = Inr Break"
  by code_simp

lemma interrupted_close_run:
  "case main_try
          (example_world\<lparr>events :=
             [Pass ((example_tick False (Some TimeoutError) 0)
                      \<lparr>closing := no_raise\<lparr>unsubscribe_raises := Some KeyboardInterrupt\<rparr>\<rparr>)]\<rparr>)
          (module_state 0) of
     (x, s') \<Rightarrow> x = Inl KeyboardInterrupt \<and> closes_begun s' = 1 \<and>
                 \<not> isl (py_getitem (configuration s') ''controlTopic'')"
  by code_simp

theorem close_once_or_never_witness:
  "closes_begun (snd (main example_world (module_state 0))) = 0 \<and>
   closes_begun
     (snd (main (example_world\<lparr>events := [Pass (example_tick False (Some TimeoutError) 0)]\<rparr>)
             (module_state 0))) = 1 \<and>
   closes_begun
     (snd (main
             (example_world\<lparr>events :=
                [Pass ((example_tick False (Some TimeoutError) 0)
                         \<lparr>closing := no_raise\<lparr>unsubscribe_raises := Some KeyboardInterrupt\<rparr>\<rparr>)]\<rparr>)
             (module_state 0))) = 2"
  using close_once_or_never [of example_world 0]
        close_once_or_never
          [of "example_world\<lparr>events := [Pass (example_tick False (Some TimeoutError) 0)]\<rparr>" 0]
        close_once_or_never
          [of "example_world\<lparr>events :=
                [Pass ((example_tick False (Some TimeoutError) 0)
                         \<lparr>closing := no_raise\<lparr>unsubscribe_raises := Some KeyboardInterrupt\<rparr>\<rparr>)]\<rparr>" 0]
        still_running_run reconnect_timeout_run interrupted_close_run
  by (auto simp add: case_prod_beta split: prod.splits)

lemma refused_connection_run:
  "case main (example_world\<lparr>connect_raises := Some ConnectionRefusedError\<rparr>) (module_state 0) of
     (x, s') \<Rightarrow> x = Inr Returned \<and> closes_begun s' = 0 \<and> closes_ended s' = 0"
  by code_simp

text \<open>
  The claim as it was written fails on this input: the broker refuses the connection,
  \<^verbatim>\<open>main\<close> prints the error and returns, and \<^verbatim>\<open>close_mqtt\<close> was not called.
\<close>

theorem refused_connection_counterexample:
  "fst (main (example_world\<lparr>connect_raises := Some ConnectionRefusedError\<rparr>) (module_state 0))
     = Inr Returned \<and>
   closes_begun
     (snd (main (example_world\<lparr>connect_raises := Some ConnectionRefusedError\<rparr>)
             (module_state 0))) = 0 \<and>
   closes_ended
     (snd (main (example_world\<lparr>connect_raises := Some ConnectionRefusedError\<rparr>)
             (module_state 0))) = 0"
  using refused_connection_run by (simp add: case_prod_beta)

text \<open>
  C6. With a publish topic and a quality of service configured that \<^verbatim>\<open>client.publish\<close>
  accepts, so that the call returns, a \<^verbatim>\<open>publishStatus\<close> command returns with
  \<open>last_publish\<close> and the configuration as they were. The telemetry changes under
  \<^verbatim>\<open>timeStamp\<close> only, the entry every publish overwrites: every other entry, \<^verbatim>\<open>cpuTemp\<close>
  among them, keeps its value, and the sensor is not read. One call is made on the client:
  the publish of this telemetry on the publish topic.
\<close>

theorem publish_status_frame:
  assumes "map_of m ''command'' = Some (JStr ''publishStatus'')"
    and "py_getitem (configuration s) ''publishTopic'' = Inr (JStr topic)"
    and "py_getitem (configuration s) ''brokerQoS'' = Inr qos"
    and "publish_raises r = None"
  shows "\<exists>s'. on_message (Inr (JObj m)) r s = (Inr (), s') \<and>
           last_publish s' = last_publish s \<and>
           configuration s' = configuration s \<and>
           telemetry s' = AList.update ''timeStamp'' (JStr (timestamp r)) (telemetry s) \<and>
           (\<forall>k. k \<noteq> ''timeStamp'' \<longrightarrow> map_of (telemetry s') k = map_of (telemetry s) k) \<and>
           calls s' = calls s @ [Publish (JStr topic) [Dumps (JObj (telemetry s')) IndentTab] qos]"
  using assms
  by (simp add: on_message_def prog_defs publish_telemetry_def update_conv')

theorem publish_status_frame_witness:
  "\<exists>s'. on_message (Inr (JObj [(''command'', JStr ''publishStatus'')])) example_readings
           example_state = (Inr (), s') \<and>
         last_publish s' = 100 \<and>
         map_of (telemetry s') ''cpuTemp'' = Some (JInt 40) \<and>
         calls s' = [Publish (JStr ''stats/cpu'') [Dumps (JObj (telemetry s')) IndentTab] (JInt 1)]"
proof -
  from publish_status_frame [of "[(''command'', JStr ''publishStatus'')]" example_state
      "''stats/cpu''" "JInt 1" example_readings]
  obtain s' where
    "on_message (Inr (JObj [(''command'', JStr ''publishStatus'')])) example_readings
       example_state = (Inr (), s')"
    "last_publish s' = last_publish example_state"
    "\<forall>k. k \<noteq> ''timeStamp'' \<longrightarrow> map_of (telemetry s') k = map_of (telemetry example_state) k"
    "calls s' = calls example_state @
       [Publish (JStr ''stats/cpu'') [Dumps (JObj (telemetry s')) IndentTab] (JInt 1)]"
    by (auto simp add: example_state_def example_configuration_def example_readings_def)
  moreover from this(3)
  have "map_of (telemetry s') ''cpuTemp'' = map_of (telemetry example_state) ''cpuTemp''"
    by simp
  ultimately show ?thesis
    by (intro exI [of _ s']) (simp add: example_state_def)
qed





text \<open>
  C8, as amended. A message whose command is a string other than \<^verbatim>\<open>publishTelemetry\<close>,
  \<^verbatim>\<open>changeTelemetryInterval\<close> and \<^verbatim>\<open>publishStatus\<close> changes nothing but the printed
  output. For \<^verbatim>\<open>debug\<close> the callback prints its client and its user data; for every other
  such command it prints that the command is not recognized, naming it, and then the list
  of commands as the source spells it.
\<close>

theorem unrecognized_command:
  assumes "map_of m ''command'' = Some (JStr c)"
    and "c \<noteq> ''publishTelemetry''" and "c \<noteq> ''changeTelemetryInterval''"
    and "c \<noteq> ''publishStatus''"
  shows "on_message (Inr (JObj m)) r s =
     (Inr (), s\<lparr>stdout := stdout s @
        [[Dumps (JObj m) IndentTab], [Lit (''Processing command '' @ dq @ c @ dq)]] @
        (if c = ''debug'' then [[StrClient], [StrUserdata]]
         else [[Lit (''The command '' @ dq), Str (JStr c), Lit (dq @ '' is not recognized.'')],
               [Lit (''Currently recognized commands are:'' @ nl @ tab @ ''publishTelemetry''
                       @ nl @ tab @ ''changeTelemetryInterval''
                       @ nl @ tab @ ''changeSeaLevelPressure''
                       @ nl @ tab @ ''publishStatus'')]])\<rparr>)"
  using assms by (simp add: on_message_def prog_defs)

theorem unrecognized_command_witness:
  "on_message (Inr (JObj [(''command'', JStr ''reboot'')])) example_readings example_state =
     (Inr (), example_state\<lparr>stdout :=
        [[Dumps (JObj [(''command'', JStr ''reboot'')]) IndentTab],
         [Lit (''Processing command '' @ dq @ ''reboot'' @ dq)],
         [Lit (''The command '' @ dq), Str (JStr ''reboot''), Lit (dq @ '' is not recognized.'')],
         [Lit (''Currently recognized commands are:'' @ nl @ tab @ ''publishTelemetry''
                 @ nl @ tab @ ''changeTelemetryInterval''
                 @ nl @ tab @ ''changeSeaLevelPressure''
                 @ nl @ tab @ ''publishStatus'')]]\<rparr>)"
  using unrecognized_command [of "[(''command'', JStr ''reboot'')]" "''reboot''"
      example_readings example_state]
  by (simp add: example_state_def)

text \<open>
  The claim as it was written fails on this input: \<^verbatim>\<open>debug\<close> is none of the three
  commands, and the callback prints neither that it is not recognized nor the list.
\<close>

theorem debug_command_counterexample:
  "on_message (Inr (JObj [(''command'', JStr ''debug'')])) example_readings example_state =
     (Inr (), example_state\<lparr>stdout :=
        [[Dumps (JObj [(''command'', JStr ''debug'')]) IndentTab],
         [Lit (''Processing command '' @ dq @ ''debug'' @ dq)],
         [StrClient], [StrUserdata]]\<rparr>)"
  by (simp add: on_message_def prog_defs example_state_def)

text \<open>
  C9. The callback leaves the configuration as it was, unless the message is an object
  whose command is \<^verbatim>\<open>changeTelemetryInterval\<close> and whose value differs from the stored
  interval and is above 4; then the new configuration is the old one with the value under
  \<^verbatim>\<open>publishInterval\<close>, every other key keeping its value. The loop, with its scheduled
  publishes, its reconnects and the close after a reconnect timeout, leaves the
  configuration as it was, and so do \<^verbatim>\<open>close_mqtt\<close> and \<^verbatim>\<open>publish_telemetry\<close>. In
  \<^verbatim>\<open>main\<close> the configuration is assigned by the load only: reading the configuration
  file leaves what the file holds, or the old configuration if the load raises; the rest
  of the start leaves the configuration as the load left it; and after a whole run of
  \<^verbatim>\<open>main\<close>, handlers included, the configuration is the one the start left.
\<close>

theorem only_interval_mutated:
  "(configuration (snd (on_message decoded r s)) = configuration s \<or>
    (\<exists>m c old_value new_value.
       decoded = Inr (JObj m) \<and>
       map_of m ''command'' = Some (JStr ''changeTelemetryInterval'') \<and>
       map_of m ''value'' = Some new_value \<and>
       configuration s = JObj c \<and>
       map_of c ''publishInterval'' = Some old_value \<and>
       py_ne old_value new_value \<and> py_gt_int new_value 4 = Inr True \<and>
       configuration (snd (on_message decoded r s)) =
         JObj (AList.update ''publishInterval'' new_value c) \<and>
       (\<forall>k. k \<noteq> ''publishInterval'' \<longrightarrow>
          map_of (AList.update ''publishInterval'' new_value c) k = map_of c k))) \<and>
   configuration (snd (main_loop evs s)) = configuration s \<and>
   configuration (snd (close_mqtt k s)) = configuration s \<and>
   configuration (snd (publish_telemetry r s)) = configuration s \<and>
   configuration (snd (main w s)) = configuration (snd (startup w s)) \<and>
   configuration (snd (startup w s)) = configuration (snd (read_configuration w s)) \<and>
   configuration (snd (read_configuration w s)) =
     (case files w (if length (argv w) > 1 then argv w ! 1 else config_file_name s) of
        Inl e \<Rightarrow> configuration s
      | Inr c \<Rightarrow> c)"
proof -
  obtain x s1 where "main_loop evs s = (x, s1)"
    by (cases "main_loop evs s")
  from main_loop_frame [OF this] this
  have loop: "configuration (snd (main_loop evs s)) = configuration s"
    by simp
  obtain y s2 where "publish_telemetry r s = (y, s2)"
    by (cases "publish_telemetry r s")
  from publish_telemetry_frame [OF this] this
  have publish: "configuration (snd (publish_telemetry r s)) = configuration s"
    by simp
  obtain z s3 where "close_mqtt k s = (z, s3)"
    by (cases "close_mqtt k s")
  from close_mqtt_frame [OF this] this
  have close: "configuration (snd (close_mqtt k s)) = configuration s"
    by simp
  have others: "\<forall>k. k \<noteq> ''publishInterval'' \<longrightarrow>
      map_of (AList.update ''publishInterval'' v c) k = map_of c k"
    for v and c :: "(string \<times> json) list"
    by (simp add: update_conv')
  from on_message_configuration [of decoded r s] others
  have "configuration (snd (on_message decoded r s)) = configuration s \<or>
    (\<exists>m c old_value new_value.
       decoded = Inr (JObj m) \<and>
       map_of m ''command'' = Some (JStr ''changeTelemetryInterval'') \<and>
       map_of m ''value'' = Some new_value \<and>
       configuration s = JObj c \<and>
       map_of c ''publishInterval'' = Some old_value \<and>
       py_ne old_value new_value \<and> py_gt_int new_value 4 = Inr True \<and>
       configuration (snd (on_message decoded r s)) =
         JObj (AList.update ''publishInterval'' new_value c) \<and>
       (\<forall>k. k \<noteq> ''publishInterval'' \<longrightarrow>
          map_of (AList.update ''publishInterval'' new_value c) k = map_of c k))"
    by blast
  with loop close publish main_after_startup [of w s] startup_after_read [of w s]
    read_configuration_frame [of w s]
  show ?thesis
    by blast
qed

theorem only_interval_mutated_witness:
  "configuration
     (snd (on_message
             (Inr (JObj [(''command'', JStr ''changeTelemetryInterval''), (''value'', JInt 7)]))
             example_readings
             (example_state\<lparr>configuration := JObj [(''publishInterval'', JStr ''5'')]\<rparr>))) =
   JObj [(''publishInterval'', JInt 7)] \<and>
   configuration
     (snd (main_loop [Pass (example_tick True None 200)] example_state)) = example_configuration \<and>
   configuration (snd (main example_world (module_state 0))) = example_configuration"
proof -
  have "configuration
     (snd (on_message
             (Inr (JObj [(''command'', JStr ''changeTelemetryInterval''), (''value'', JInt 7)]))
             example_readings
             (example_state\<lparr>configuration := JObj [(''publishInterval'', JStr ''5'')]\<rparr>))) =
   JObj [(''publishInterval'', JInt 7)]"
    by (simp add: on_message_def prog_defs py_ne_def)
  moreover from only_interval_mutated [of _ _ example_state "[Pass (example_tick True None 200)]"]
  have "configuration (snd (main_loop [Pass (example_tick True None 200)] example_state)) =
          configuration example_state"
    by blast
  moreover from only_interval_mutated [where s = "module_state 0" and w = example_world]
  have "configuration (snd (main example_world (module_state 0))) =
          (case files example_world
                  (if length (argv example_world) > 1 then argv example_world ! 1
                   else config_file_name (module_state 0)) of
             Inl e \<Rightarrow> configuration (module_state 0)
           | Inr c \<Rightarrow> c)"
    by simp
  ultimately show ?thesis
    by (simp add: example_state_def example_world_def module_state_def)
qed

text \<open>
  C10. The socket of \<^verbatim>\<open>get_ip\<close> is closed whatever the probe does. When the probe
  returns an address, \<^verbatim>\<open>get_ip\<close> returns it; when the probe raises \<^verbatim>\<open>InterruptedError\<close>
  or any other \<^verbatim>\<open>OSError\<close>, \<^verbatim>\<open>get_ip\<close> returns \<^verbatim>\<open>127.0.0.1\<close> and raises nothing. These
  are the outcomes a socket call has.
\<close>

theorem get_ip_total:
  assumes "case p of Inr a \<Rightarrow> True | Inl e \<Rightarrow> e = InterruptedError \<or> is_OSError e"
  shows "get_ip p = (Inr (case p of Inr a \<Rightarrow> a | Inl e \<Rightarrow> ''127.0.0.1''), Closed) \<and>
         snd (get_ip q) = Closed"
  using assms by (auto simp add: get_ip_def sock_close_def split: sum.splits)

theorem get_ip_total_witness:
  "get_ip (Inl OSError) = (Inr ''127.0.0.1'', Closed) \<and>
   get_ip (Inl InterruptedError) = (Inr ''127.0.0.1'', Closed) \<and>
   get_ip (Inr ''192.168.1.20'') = (Inr ''192.168.1.20'', Closed) \<and>
   snd (get_ip (Inl KeyboardInterrupt)) = Closed"
  using get_ip_total [of "Inl OSError" "Inl KeyboardInterrupt"]
    get_ip_total [of "Inl InterruptedError"] get_ip_total [of "Inr ''192.168.1.20''"]
  by simp

end
